theory Spec2Isabelle
  imports
    Complex_Main
    "HOL-Library.Multiset"
    "HOL-Library.Char_ord"
    "HOL-Library.List_Lexorder"
    "HOL-Library.Product_Lexorder"
begin

section \<open>Tables: the part of pandas that \<open>cox_model.py\<close> uses\<close>

text \<open>
  A cell of a table read from the CSV file is missing (\<open>NaN\<close>, \<open>None\<close>, \<open>NaT\<close>), a
  string, or a number. Integers and finite floats are embedded by their value; the script
  only compares and copies numbers, it never computes with them.
\<close>

datatype cell = Null | Str string | Num real

datatype py_error = KeyError | TypeError | ValueError | IndexError | NameError | LibraryError nat

text \<open>
  pandas keeps a dtype for every column, and arithmetic on a column is decided by the dtype
  before any value is read. A column is \<open>object\<close> (Python objects: here strings and missing
  values) or a number type (\<open>int64\<close>, \<open>float64\<close>, which the script never tells apart).
\<close>

datatype dtype = Object | Numeric

text \<open>
  A \<open>DataFrame\<close>: the column names in order, their dtypes (\<open>df.dtypes\<close>), and the rows in
  order, each with its index label. A \<open>Series\<close> is its dtype and the list of its values, in
  row order: wherever the script combines or assigns series, they come from one frame and
  are aligned position by position.
\<close>

record frame =
  columns :: "string list"
  dtypes :: "dtype list"
  rows :: "(nat \<times> cell list) list"

record series =
  dtype :: dtype
  cells :: "cell list"

text \<open>Raising propagates: the rest of a computation runs only on a value.\<close>

definition bind_err :: "py_error + 'a \<Rightarrow> ('a \<Rightarrow> py_error + 'b) \<Rightarrow> py_error + 'b" where
  "bind_err m f = (case m of Inl e \<Rightarrow> Inl e | Inr a \<Rightarrow> f a)"

fun is_num :: "cell \<Rightarrow> bool" where
  "is_num (Num x) = True"
| "is_num _ = False"

fun is_str :: "cell \<Rightarrow> bool" where
  "is_str (Str s) = True"
| "is_str _ = False"

text \<open>\<open>pd.read_csv\<close>: the parsed file gets the index \<open>0, 1, 2, ...\<close>; short lines are
  padded with missing values. The parser types each column from its values: a column with
  a string in it is \<open>object\<close>, and so is every column of a file without data lines; a
  column of numbers and blanks only (also one that is blank throughout) is a number
  column.\<close>

definition infer_dtype :: "cell list \<Rightarrow> dtype" where
  "infer_dtype xs = (if xs = [] \<or> list_ex is_str xs then Object else Numeric)"

definition read_csv :: "string list \<Rightarrow> cell list list \<Rightarrow> frame" where
  "read_csv header body =
     (let padded = map (\<lambda>r. take (length header) (r @ replicate (length header) Null)) body
      in \<lparr>columns = header,
          dtypes = map (\<lambda>j. infer_dtype (map (\<lambda>r. r ! j) padded)) [0..<length header],
          rows = zip [0..<length body] padded\<rparr>)"

definition cell_of :: "string list \<Rightarrow> cell list \<Rightarrow> string \<Rightarrow> cell" where
  "cell_of cs r c = (case map_of (zip cs r) c of Some v \<Rightarrow> v | None \<Rightarrow> Null)"

definition dtype_at :: "frame \<Rightarrow> string \<Rightarrow> dtype" where
  "dtype_at df c = (case map_of (zip (columns df) (dtypes df)) c of Some d \<Rightarrow> d | None \<Rightarrow> Object)"

text \<open>\<open>len(df)\<close>, \<open>df.index\<close>, \<open>df[c]\<close>, \<open>df[[c1, c2, ...]]\<close>, \<open>c in df.columns\<close>.\<close>

definition len :: "frame \<Rightarrow> nat" where
  "len df = length (rows df)"

definition index :: "frame \<Rightarrow> nat list" where
  "index df = map fst (rows df)"

definition getitem_col :: "frame \<Rightarrow> string \<Rightarrow> py_error + series" where
  "getitem_col df c =
     (if c \<in> set (columns df)
      then Inr \<lparr>dtype = dtype_at df c,
                cells = map (\<lambda>r. cell_of (columns df) (snd r) c) (rows df)\<rparr>
      else Inl KeyError)"

definition getitem_cols :: "frame \<Rightarrow> string list \<Rightarrow> py_error + frame" where
  "getitem_cols df cs =
     (if set cs \<subseteq> set (columns df)
      then Inr \<lparr>columns = cs,
                dtypes = map (dtype_at df) cs,
                rows = map (\<lambda>r. (fst r, map (cell_of (columns df) (snd r)) cs)) (rows df)\<rparr>
      else Inl KeyError)"

text \<open>\<open>df.dropna()\<close> and \<open>df.dropna(subset=cs)\<close>: rows with a missing value (in the
  columns \<open>cs\<close>) go, the others stay in order with their index labels.\<close>

definition dropna :: "frame \<Rightarrow> frame" where
  "dropna df = df\<lparr>rows := filter (\<lambda>r. Null \<notin> set (snd r)) (rows df)\<rparr>"

definition dropna_subset :: "frame \<Rightarrow> string list \<Rightarrow> py_error + frame" where
  "dropna_subset df cs =
     (if set cs \<subseteq> set (columns df)
      then Inr (df\<lparr>rows := filter (\<lambda>r. \<forall>c \<in> set cs. cell_of (columns df) (snd r) c \<noteq> Null)
                                 (rows df)\<rparr>)
      else Inl KeyError)"

text \<open>Comparisons of a series with a scalar give a boolean mask; a missing value is equal
  to nothing and different from everything.\<close>

definition cell_eq :: "cell \<Rightarrow> cell \<Rightarrow> bool" where
  "cell_eq a b = (a \<noteq> Null \<and> b \<noteq> Null \<and> a = b)"

definition series_eq :: "series \<Rightarrow> cell \<Rightarrow> bool list" where
  "series_eq s v = map (\<lambda>x. cell_eq x v) (cells s)"

definition series_ne :: "series \<Rightarrow> cell \<Rightarrow> bool list" where
  "series_ne s v = map (\<lambda>x. \<not> cell_eq x v) (cells s)"

definition isin :: "series \<Rightarrow> string list \<Rightarrow> bool list" where
  "isin s vs = map (\<lambda>x. x \<in> Str ` set vs) (cells s)"

definition index_isin :: "frame \<Rightarrow> nat list \<Rightarrow> bool list" where
  "index_isin df ix = map (\<lambda>r. fst r \<in> set ix) (rows df)"

definition mask_and :: "bool list \<Rightarrow> bool list \<Rightarrow> bool list" where
  "mask_and a b = map2 (\<and>) a b"

definition mask_not :: "bool list \<Rightarrow> bool list" where
  "mask_not a = map Not a"

text \<open>\<open>df[mask]\<close>: the rows where the mask holds.\<close>

definition getitem_mask :: "frame \<Rightarrow> bool list \<Rightarrow> frame" where
  "getitem_mask df m = df\<lparr>rows := map snd (filter fst (zip m (rows df)))\<rparr>"

text \<open>\<open>df[c] = s\<close>: an existing column is overwritten, a new one is appended; the column
  takes the dtype of the series.\<close>

definition setitem_col :: "frame \<Rightarrow> string \<Rightarrow> series \<Rightarrow> frame" where
  "setitem_col df c s =
     (if c \<in> set (columns df)
      then df\<lparr>dtypes := map2 (\<lambda>k d. if k = c then dtype s else d) (columns df) (dtypes df),
              rows := map2 (\<lambda>r v. (fst r, map2 (\<lambda>k x. if k = c then v else x) (columns df) (snd r)))
                          (rows df) (cells s)\<rparr>
      else \<lparr>columns = columns df @ [c],
            dtypes = map (dtype_at df) (columns df) @ [dtype s],
            rows = map2 (\<lambda>r v. (fst r, snd r @ [v])) (rows df) (cells s)\<rparr>)"

text \<open>\<open>+\<close> on two Python objects, as pandas applies it value by value to an \<open>object\<close>
  column: strings are concatenated, a missing value stays missing, a string and a number do
  not add.\<close>

fun cell_add :: "cell \<Rightarrow> cell \<Rightarrow> py_error + cell" where
  "cell_add Null _ = Inr Null"
| "cell_add _ Null = Inr Null"
| "cell_add (Str a) (Str b) = Inr (Str (a @ b))"
| "cell_add (Num a) (Num b) = Inr (Num (a + b))"
| "cell_add _ _ = Inl TypeError"

fun sequence :: "(py_error + 'a) list \<Rightarrow> py_error + 'a list" where
  "sequence [] = Inr []"
| "sequence (x # xs) = bind_err x (\<lambda>v. bind_err (sequence xs) (\<lambda>vs. Inr (v # vs)))"

text \<open>
  \<open>s + t\<close> and \<open>s + v\<close> on series. pandas first hands the whole arrays to numpy, and
  falls back to the addition value by value, missing values skipped, only when an operand
  is an \<open>object\<close> array. So a number column plus a string raises \<open>TypeError\<close> whatever the
  column holds, also when it is blank throughout or has no rows at all.
\<close>

definition series_add :: "series \<Rightarrow> series \<Rightarrow> py_error + series" where
  "series_add a b =
     bind_err (sequence (map2 cell_add (cells a) (cells b))) (\<lambda>xs.
     Inr \<lparr>dtype = (if dtype a = Object \<or> dtype b = Object then Object else Numeric),
          cells = xs\<rparr>)"

definition series_add_scalar :: "series \<Rightarrow> cell \<Rightarrow> py_error + series" where
  "series_add_scalar a v =
     (if dtype a = Numeric \<and> is_str v then Inl TypeError
      else bind_err (sequence (map (\<lambda>x. cell_add x v) (cells a))) (\<lambda>xs.
           Inr \<lparr>dtype = dtype a, cells = xs\<rparr>))"

text \<open>\<open>df.head(n)\<close>, \<open>df.reset_index(drop=True)\<close>, \<open>df.drop(columns=c)\<close>,
  \<open>pd.concat([a, b])\<close> (the columns of \<open>a\<close>, then those only \<open>b\<close> has; a cell a frame
  does not have is missing; a column is \<open>object\<close> when it is in either frame),
  \<open>s.unique()\<close> (the array of first occurrences, in order).\<close>

definition head :: "nat \<Rightarrow> frame \<Rightarrow> frame" where
  "head n df = df\<lparr>rows := take n (rows df)\<rparr>"

definition reset_index :: "frame \<Rightarrow> frame" where
  "reset_index df = df\<lparr>rows := zip [0..<length (rows df)] (map snd (rows df))\<rparr>"

definition drop_column :: "frame \<Rightarrow> string \<Rightarrow> py_error + frame" where
  "drop_column df c =
     (if c \<in> set (columns df) then getitem_cols df (filter (\<lambda>k. k \<noteq> c) (columns df))
      else Inl KeyError)"

definition pd_concat :: "frame \<Rightarrow> frame \<Rightarrow> frame" where
  "pd_concat a b =
     (let cs = columns a @ filter (\<lambda>c. c \<notin> set (columns a)) (columns b)
      in \<lparr>columns = cs,
          dtypes = map (\<lambda>c. if (c \<in> set (columns a) \<and> dtype_at a c = Object)
                               \<or> (c \<in> set (columns b) \<and> dtype_at b c = Object)
                            then Object else Numeric) cs,
          rows = map (\<lambda>r. (fst r, map (cell_of (columns a) (snd r)) cs)) (rows a)
               @ map (\<lambda>r. (fst r, map (cell_of (columns b) (snd r)) cs)) (rows b)\<rparr>)"

definition unique :: "series \<Rightarrow> cell list" where
  "unique s = rev (remdups (rev (cells s)))"

text \<open>\<open>data.loc[ix, c]\<close>: the values of column \<open>c\<close> at the index labels \<open>ix\<close>, in the
  order of \<open>ix\<close>; a label the frame does not have raises.\<close>

definition loc_col :: "frame \<Rightarrow> nat list \<Rightarrow> string \<Rightarrow> py_error + series" where
  "loc_col df ix c =
     (if c \<in> set (columns df)
      then bind_err (sequence (map (\<lambda>i. case map_of (rows df) i of
                                           None \<Rightarrow> Inl KeyError
                                         | Some r \<Rightarrow> Inr (cell_of (columns df) r c)) ix))
             (\<lambda>xs. Inr \<lparr>dtype = dtype_at df c, cells = xs\<rparr>)
      else Inl KeyError)"

text \<open>
  The order of values: numbers by value, strings by code point, numbers before strings.
  Sorting a column that mixes numbers and strings raises.
\<close>

fun cell_rank :: "cell \<Rightarrow> nat \<times> real \<times> string" where
  "cell_rank (Num x) = (0, x, [])"
| "cell_rank (Str s) = (1, 0, s)"
| "cell_rank Null = (2, 0, [])"

definition cell_le :: "cell \<Rightarrow> cell \<Rightarrow> bool" where
  "cell_le a b = (cell_rank a \<le> cell_rank b)"

text \<open>
  \<open>df.sort_values(c)\<close>, ascending, missing keys last in their original order. The sort
  of the present keys is numpy's \<open>argsort\<close> with the default \<open>kind='quicksort'\<close>, which
  does not fix the order of rows with equal keys: it is the parameter \<open>argsort\<close>, from the
  keys to the positions in sorted order.
\<close>

definition sort_values :: "(cell list \<Rightarrow> nat list) \<Rightarrow> frame \<Rightarrow> string \<Rightarrow> py_error + frame" where
  "sort_values argsort df c =
     bind_err (getitem_col df c) (\<lambda>ks.
       let keyed = zip (cells ks) (rows df);
           present = filter (\<lambda>p. fst p \<noteq> Null) keyed;
           missing = filter (\<lambda>p. fst p = Null) keyed
       in if list_all is_num (map fst present) \<or> list_all is_str (map fst present)
          then Inr (df\<lparr>rows := map (\<lambda>i. snd (present ! i)) (argsort (map fst present))
                               @ map snd missing\<rparr>)
          else Inl TypeError)"

text \<open>What the theorems ask of \<open>argsort\<close>: the positions, each once, in an order that
  sorts the keys.\<close>

definition argsort_ok :: "(cell list \<Rightarrow> nat list) \<Rightarrow> bool" where
  "argsort_ok argsort =
     (\<forall>ks. mset (argsort ks) = mset [0..<length ks]
          \<and> sorted_wrt cell_le (map (\<lambda>i. ks ! i) (argsort ks)))"

text \<open>
  \<open>df.groupby(c, group_keys=False).apply(lambda group: group.head(n))\<close>. Rows with a
  missing key are left out; the groups are visited in the sorted order of their keys and
  each keeps its rows in the frame's order. When every group comes back whole (none has
  more than \<open>n\<close> rows) pandas restores the frame's own row order; otherwise the result is
  the groups' heads one after the other.
\<close>

definition groupby_apply_head :: "frame \<Rightarrow> string \<Rightarrow> nat \<Rightarrow> py_error + frame" where
  "groupby_apply_head df c n =
     bind_err (getitem_col df c) (\<lambda>ks.
       let keyed = filter (\<lambda>p. fst p \<noteq> Null) (zip (cells ks) (rows df));
           keys = sort_key cell_rank (remdups (map fst keyed));
           groups = map (\<lambda>k. map snd (filter (\<lambda>p. fst p = k) keyed)) keys
       in if list_all (\<lambda>g. length g \<le> n) groups
          then Inr (df\<lparr>rows := map snd keyed\<rparr>)
          else Inr (df\<lparr>rows := concat (map (take n) groups)\<rparr>))"

section \<open>The libraries the script calls\<close>

text \<open>
  A survival table as \<open>predict_survival_function\<close> returns it: the time grid (its index)
  and one column of probabilities per row of the input.
\<close>

record survival =
  timeline :: "real list"
  curves :: "real list list"

text \<open>
  What the script takes from pandas, numpy and lifelines without the source saying how it
  is computed. \<open>year_of_date\<close> is \<open>pd.to_datetime(...).dt.year\<close> on one present value
  (\<open>None\<close>: the parser raises); \<open>py_str\<close> is \<open>str\<close> of a value; \<open>fit\<close>, \<open>summary\<close> and
  \<open>predict_survival_function\<close> are the \<open>CoxPHFitter\<close>'s, over fitted models \<open>'m\<close>;
  \<open>round_frame\<close> is \<open>DataFrame.round\<close>.
\<close>

record 'm library =
  year_of_date :: "cell \<Rightarrow> int option"
  argsort :: "cell list \<Rightarrow> nat list"
  py_str :: "cell \<Rightarrow> string"
  fit :: "frame \<Rightarrow> string \<Rightarrow> string \<Rightarrow> py_error + 'm"
  summary :: "'m \<Rightarrow> frame"
  round_frame :: "frame \<Rightarrow> nat \<Rightarrow> frame"
  predict_survival_function :: "'m \<Rightarrow> frame \<Rightarrow> py_error + survival"

definition dt_year :: "(cell \<Rightarrow> int option) \<Rightarrow> series \<Rightarrow> py_error + series" where
  "dt_year yr s =
     bind_err (sequence (map (\<lambda>x. if x = Null then Inr Null
                                   else (case yr x of None \<Rightarrow> Inl ValueError
                                                    | Some y \<Rightarrow> Inr (Num (of_int y)))) (cells s)))
       (\<lambda>xs. Inr \<lparr>dtype = Numeric, cells = xs\<rparr>)"

definition astype_str :: "(cell \<Rightarrow> string) \<Rightarrow> series \<Rightarrow> series" where
  "astype_str pstr s = \<lparr>dtype = Object, cells = map (\<lambda>x. Str (pstr x)) (cells s)\<rparr>"

section \<open>The script: preparation (lines 78 to 101)\<close>

definition features :: "string list" where
  "features = [''gdp_country_a'', ''number_of_measures'', ''mean_duration_months'']"

text \<open>The separator of the labels: a space, an en dash (three bytes in UTF-8; written \<open>-\<close> in the comments below), a
  space.\<close>

definition dash :: string where
  "dash = [CHR 0x20, CHR 0xE2, CHR 0x80, CHR 0x93, CHR 0x20]"

text \<open>Lines 91 to 93: \<open>data[['country_a', 'country_b'] + features + ['duration_months',
  'terminated']].dropna().copy()\<close>.\<close>

definition data_model_selection :: "frame \<Rightarrow> py_error + frame" where
  "data_model_selection data =
     bind_err (getitem_cols data ([''country_a'', ''country_b''] @ features
                                   @ [''duration_months'', ''terminated'']))
       (\<lambda>sel. Inr (dropna sel))"

text \<open>Line 96, the right-hand side: \<open>data_model['country_a'] + " - " +
  data_model['country_b']\<close>.\<close>

definition data_model_label :: "frame \<Rightarrow> py_error + series" where
  "data_model_label dm =
     bind_err (getitem_col dm ''country_a'') (\<lambda>a.
     bind_err (series_add_scalar a (Str dash)) (\<lambda>a1.
     bind_err (getitem_col dm ''country_b'') (\<lambda>b.
     series_add a1 b)))"

text \<open>The prepared table \<open>data_model\<close> as it stands after line 96.\<close>

definition data_model :: "frame \<Rightarrow> py_error + frame" where
  "data_model data =
     bind_err (data_model_selection data) (\<lambda>dm.
     bind_err (data_model_label dm) (\<lambda>lab.
     Inr (setitem_col dm ''label'' lab)))"

definition model_cols :: "string list" where
  "model_cols = [''gdp_country_a'', ''number_of_measures'', ''mean_duration_months'',
                 ''duration_months'', ''terminated'']"

text \<open>Line 101: \<open>cph.fit(data_model[model_cols], duration_col='duration_months',
  event_col='terminated')\<close>; \<open>fit_input\<close> is the table the fitter receives.\<close>

definition fit_input :: "frame \<Rightarrow> py_error + frame" where
  "fit_input dm = getitem_cols dm model_cols"

definition cph_fit :: "'m library \<Rightarrow> frame \<Rightarrow> py_error + 'm" where
  "cph_fit L dm =
     bind_err (fit_input dm) (\<lambda>x. fit L x ''duration_months'' ''terminated'')"

section \<open>The script: the cohort view (lines 114 to 153)\<close>

definition big_players :: "string list" where
  "big_players = [''United States of America'', ''India'', ''France'', ''United Kingdom'',
                  ''Russia'', ''Canada'', ''Japan'']"

text \<open>Line 117: \<open>data_model[data_model['terminated'] == 1].copy()\<close>.\<close>

definition terminated_selection :: "frame \<Rightarrow> py_error + frame" where
  "terminated_selection dm =
     bind_err (getitem_col dm ''terminated'') (\<lambda>t.
     Inr (getitem_mask dm (series_eq t (Num 1))))"

text \<open>Line 120, the right-hand side:
  \<open>pd.to_datetime(data.loc[terminated_conflicts.index, 'start_date']).dt.year\<close>.\<close>

definition start_year_of :: "'m library \<Rightarrow> frame \<Rightarrow> frame \<Rightarrow> py_error + series" where
  "start_year_of L data tc =
     bind_err (loc_col data (index tc) ''start_date'') (dt_year (year_of_date L))"

text \<open>Lines 123 to 127, the right-hand side: initiator, dash, target, and the start year
  in parentheses.\<close>

definition cohort_label :: "'m library \<Rightarrow> frame \<Rightarrow> py_error + series" where
  "cohort_label L tc =
     bind_err (getitem_col tc ''country_a'') (\<lambda>a.
     bind_err (series_add_scalar a (Str dash)) (\<lambda>s1.
     bind_err (getitem_col tc ''country_b'') (\<lambda>b.
     bind_err (series_add s1 b) (\<lambda>s2.
     bind_err (series_add_scalar s2 (Str '' ('')) (\<lambda>s3.
     bind_err (getitem_col tc ''start_year'') (\<lambda>y.
     bind_err (series_add s3 (astype_str (py_str L) y)) (\<lambda>s4.
     series_add_scalar s4 (Str '')''))))))))"

text \<open>\<open>terminated_conflicts\<close> as it stands after line 127.\<close>

definition terminated_conflicts :: "'m library \<Rightarrow> frame \<Rightarrow> frame \<Rightarrow> py_error + frame" where
  "terminated_conflicts L data dm =
     bind_err (terminated_selection dm) (\<lambda>tc0.
     bind_err (start_year_of L data tc0) (\<lambda>ys.
     let tc1 = setitem_col tc0 ''start_year'' ys in
     bind_err (cohort_label L tc1) (\<lambda>lab.
     Inr (setitem_col tc1 ''label'' lab))))"

text \<open>Lines 130 to 137.\<close>

definition usa_terminated :: "'m library \<Rightarrow> frame \<Rightarrow> py_error + frame" where
  "usa_terminated L tc =
     bind_err (getitem_col tc ''country_a'') (\<lambda>a.
     bind_err (getitem_col tc ''country_b'') (\<lambda>b.
     bind_err (sort_values (argsort L)
                 (getitem_mask tc (mask_and (series_eq a (Str ''United States of America''))
                                            (isin b big_players)))
                 ''start_year'') (\<lambda>s.
     Inr (head 5 s))))"

text \<open>Line 140: \<open>max(0, 10 - len(usa_terminated))\<close>, in Python's integers.\<close>

definition remaining_needed :: "frame \<Rightarrow> nat" where
  "remaining_needed usa = nat (max 0 (10 - int (len usa)))"

text \<open>Lines 142 to 147.\<close>

definition other_bigpower_conflicts :: "frame \<Rightarrow> frame \<Rightarrow> py_error + frame" where
  "other_bigpower_conflicts tc usa =
     bind_err (getitem_col tc ''country_a'') (\<lambda>a.
     bind_err (getitem_col tc ''country_b'') (\<lambda>b.
     bind_err (groupby_apply_head
                 (getitem_mask tc
                    (mask_and (mask_and (mask_and (isin a big_players)
                                                  (series_ne a (Str ''United States of America'')))
                                        (isin b big_players))
                              (mask_not (index_isin tc (index usa)))))
                 ''country_a'' 2) (\<lambda>g.
     Inr (reset_index g))))"

text \<open>Line 150 and line 153.\<close>

definition additional :: "frame \<Rightarrow> frame \<Rightarrow> frame" where
  "additional other usa = head (remaining_needed usa) other"

definition final_set :: "frame \<Rightarrow> frame \<Rightarrow> frame" where
  "final_set usa add = reset_index (pd_concat usa add)"

text \<open>The three tables of the cohort view, from the table of terminated conflicts.\<close>

definition cohort :: "'m library \<Rightarrow> frame \<Rightarrow> py_error + (frame \<times> frame \<times> frame)" where
  "cohort L tc =
     bind_err (usa_terminated L tc) (\<lambda>usa.
     bind_err (other_bigpower_conflicts tc usa) (\<lambda>other.
     Inr (usa, additional other usa, final_set usa (additional other usa))))"

section \<open>The script: the bilateral drill-down (lines 184 to 226)\<close>

text \<open>
  Python's \<open>sorted\<close> and numpy's in-place \<open>sort\<close> on a list of values: comparing a
  string with a number (a missing value is the float \<open>NaN\<close>) raises. Where \<open>NaN\<close> ends
  up among numbers is left open by Python; here it is last.
\<close>

definition py_sorted :: "cell list \<Rightarrow> py_error + cell list" where
  "py_sorted xs =
     (if length xs \<le> 1 \<or> list_all is_str xs \<or> list_all (\<lambda>x. \<not> is_str x) xs
      then Inr (sort_key cell_rank xs)
      else Inl TypeError)"

text \<open>What the user picked in the three select boxes and on the three sliders. A select
  box without options returns \<open>None\<close>, which is \<open>Null\<close> here.\<close>

record widgets =
  selected_initiator :: cell
  selected_target :: cell
  selected_year :: cell
  gdp_input :: real
  measures_input :: int
  duration_input :: int

text \<open>Line 185 and line 189: the options of the first two select boxes.\<close>

definition available_initiators :: "frame \<Rightarrow> py_error + cell list" where
  "available_initiators data =
     bind_err (getitem_col data ''country_a'') (\<lambda>a. py_sorted (unique a))"

definition available_targets :: "frame \<Rightarrow> cell \<Rightarrow> py_error + cell list" where
  "available_targets data si =
     bind_err (getitem_col data ''country_a'') (\<lambda>a.
     bind_err (getitem_col (getitem_mask data (series_eq a si)) ''country_b'') (\<lambda>b.
     py_sorted (unique b)))"

text \<open>Lines 193 to 196.\<close>

definition filtered_conflicts :: "frame \<Rightarrow> cell \<Rightarrow> cell \<Rightarrow> py_error + frame" where
  "filtered_conflicts data si st =
     bind_err (getitem_col data ''country_a'') (\<lambda>a.
     bind_err (getitem_col data ''country_b'') (\<lambda>b.
     Inr (getitem_mask data (mask_and (series_eq a si) (series_eq b st)))))"

text \<open>Lines 199 to 203: the columns of the table shown for the pair.\<close>

definition shown_cols :: "string list" where
  "shown_cols = [''country_a'', ''country_b'', ''start_year'', ''start_date'', ''end_date'',
                 ''terminated'', ''duration_months'', ''number_of_measures'',
                 ''mean_duration_months'', ''gdp_country_a'']"

text \<open>Lines 206 and 207.\<close>

definition available_years :: "frame \<Rightarrow> py_error + cell list" where
  "available_years fc =
     bind_err (getitem_col fc ''start_year'') (\<lambda>y.
     py_sorted (unique (y\<lparr>cells := filter (\<lambda>x. x \<noteq> Null) (cells y)\<rparr>)))"

definition required_cols :: "string list" where
  "required_cols = [''gdp_country_a'', ''number_of_measures'', ''mean_duration_months'',
                    ''duration_months'', ''terminated'']"

text \<open>Line 219, and the right-hand side of line 223.\<close>

definition valid_selection :: "frame \<Rightarrow> py_error + frame" where
  "valid_selection fc = dropna_subset fc required_cols"

definition valid_start_year :: "'m library \<Rightarrow> frame \<Rightarrow> py_error + series" where
  "valid_start_year L vc =
     bind_err (getitem_col vc ''start_date'') (dt_year (year_of_date L))"

text \<open>\<open>valid_conflicts\<close> as it stands after line 223.\<close>

definition valid_conflicts :: "'m library \<Rightarrow> frame \<Rightarrow> py_error + frame" where
  "valid_conflicts L fc =
     bind_err (valid_selection fc) (\<lambda>vc.
     if ''start_year'' \<notin> set (columns vc)
     then bind_err (valid_start_year L vc) (\<lambda>ys. Inr (setitem_col vc ''start_year'' ys))
     else Inr vc)"

text \<open>Line 226.\<close>

definition conflict_row :: "frame \<Rightarrow> cell \<Rightarrow> py_error + frame" where
  "conflict_row vc sy =
     bind_err (getitem_col vc ''start_year'') (\<lambda>y.
     Inr (getitem_mask vc (series_eq y sy)))"

text \<open>The drill-down from the raw table to \<open>conflict_row\<close>.\<close>

definition drill_down :: "'m library \<Rightarrow> frame \<Rightarrow> cell \<Rightarrow> cell \<Rightarrow> cell \<Rightarrow> py_error + frame" where
  "drill_down L data si st sy =
     bind_err (filtered_conflicts data si st) (\<lambda>fc.
     bind_err (valid_conflicts L fc) (\<lambda>vc.
     conflict_row vc sy))"

section \<open>The script: what is rendered\<close>

text \<open>
  The page, as far as it depends on the data: tables, figures (the lines drawn, each with
  its legend, time grid and values), select boxes with their options, and messages.
  Headings, the fixed prose, titles and axis limits are left out.
\<close>

record line =
  legend :: cell
  xdata :: "real list"
  ydata :: "real list"

datatype event =
    St_dataframe frame
  | St_pyplot "line list"
  | St_selectbox string "cell list"
  | St_markdown string

text \<open>The two messages, byte for byte: a warning sign (U+26A0, U+FE0F), then
  \<open>Aucun conflit termine detecte parmi les grandes puissances.\<close> and
  \<open>Aucune donnee disponible pour cette annee de conflit.\<close> with their accents.\<close>

definition warning_sign :: string where
  "warning_sign = [CHR 0xE2, CHR 0x9A, CHR 0xA0, CHR 0xEF, CHR 0xB8, CHR 0x8F, CHR 0x20]"

definition no_cohort_message :: string where
  "no_cohort_message =
     warning_sign @ ''Aucun conflit termin'' @ [CHR 0xC3, CHR 0xA9] @ '' d''
     @ [CHR 0xC3, CHR 0xA9] @ ''tect'' @ [CHR 0xC3, CHR 0xA9]
     @ '' parmi les grandes puissances.''"

definition no_year_message :: string where
  "no_year_message =
     warning_sign @ ''Aucune donn'' @ [CHR 0xC3, CHR 0xA9] @ ''e disponible pour cette ann''
     @ [CHR 0xC3, CHR 0xA9] @ ''e de conflit.''"

text \<open>\<open>s.iloc[i]\<close> and \<open>df.iloc[:, i]\<close>: out of range raises.\<close>

definition iloc :: "'a list \<Rightarrow> nat \<Rightarrow> py_error + 'a" where
  "iloc xs i = (if i < length xs then Inr (xs ! i) else Inl IndexError)"

text \<open>\<open>+\<close> on two Python values: a missing value is the float \<open>NaN\<close>.\<close>

fun py_add :: "cell \<Rightarrow> cell \<Rightarrow> py_error + cell" where
  "py_add (Str a) (Str b) = Inr (Str (a @ b))"
| "py_add (Num a) (Num b) = Inr (Num (a + b))"
| "py_add Null (Num b) = Inr Null"
| "py_add (Num a) Null = Inr Null"
| "py_add Null Null = Inr Null"
| "py_add _ _ = Inl TypeError"

text \<open>Lines 156 to 171: the loop body (lines 161 and 162), and the view.\<close>

definition cohort_line :: "frame \<Rightarrow> survival \<Rightarrow> nat \<Rightarrow> py_error + line" where
  "cohort_line fs surv_plot i =
     bind_err (getitem_col fs ''label'') (\<lambda>l.
     bind_err (iloc (cells l) i) (\<lambda>lab.
     bind_err (iloc (curves surv_plot) i) (\<lambda>c.
     Inr \<lparr>legend = lab, xdata = timeline surv_plot, ydata = c\<rparr>)))"

definition cohort_view :: "'m library \<Rightarrow> 'm \<Rightarrow> frame \<Rightarrow> py_error + event list" where
  "cohort_view L m fs =
     (if len fs > 0
      then bind_err (drop_column fs ''label'') (\<lambda>x.
           bind_err (predict_survival_function L m x) (\<lambda>surv_plot.
           bind_err (sequence (map (cohort_line fs surv_plot) [0..<len fs])) (\<lambda>ls.
           Inr [St_pyplot ls])))
      else Inr [St_markdown no_cohort_message])"

text \<open>Lines 228 to 250: the label (lines 230 to 235), and the view.\<close>

definition label_text :: "'m library \<Rightarrow> frame \<Rightarrow> py_error + cell" where
  "label_text L cr =
     bind_err (getitem_col cr ''country_a'') (\<lambda>a.
     bind_err (iloc (cells a) 0) (\<lambda>a0.
     bind_err (py_add a0 (Str dash)) (\<lambda>t1.
     bind_err (getitem_col cr ''country_b'') (\<lambda>b.
     bind_err (iloc (cells b) 0) (\<lambda>b0.
     bind_err (py_add t1 b0) (\<lambda>t2.
     bind_err (getitem_col cr ''start_year'') (\<lambda>y.
     bind_err (iloc (cells y) 0) (\<lambda>y0.
     py_add t2 (Str ('' ('' @ py_str L y0 @ '')''))))))))))"

definition bilateral_view :: "'m library \<Rightarrow> 'm \<Rightarrow> frame \<Rightarrow> py_error + event list" where
  "bilateral_view L m cr =
     (if len cr > 0
      then bind_err (label_text L cr) (\<lambda>lab.
           bind_err (getitem_cols cr required_cols) (\<lambda>x.
           bind_err (predict_survival_function L m x) (\<lambda>surv_pred.
           bind_err (iloc (curves surv_pred) 0) (\<lambda>c.
           Inr [St_pyplot [\<lparr>legend = lab, xdata = timeline surv_pred, ydata = c\<rparr>]]))))
      else Inr [St_markdown no_year_message])"

text \<open>Lines 264 to 288: the hypothetical scenario.\<close>

definition custom_input :: "widgets \<Rightarrow> frame" where
  "custom_input w =
     \<lparr>columns = [''gdp_country_a'', ''number_of_measures'', ''mean_duration_months''],
      dtypes = [Numeric, Numeric, Numeric],
      rows = [(0, [Num (gdp_input w), Num (of_int (measures_input w)),
                   Num (of_int (duration_input w))])]\<rparr>"

definition custom_view :: "'m library \<Rightarrow> 'm \<Rightarrow> frame \<Rightarrow> py_error + event list" where
  "custom_view L m ci =
     bind_err (predict_survival_function L m ci) (\<lambda>surv_pred.
     bind_err (iloc (curves surv_pred) 0) (\<lambda>c.
     Inr [St_pyplot [\<lparr>legend = Str (''USA'' @ dash @ ''Chine (2025)''),
                      xdata = timeline surv_pred, ydata = c\<rparr>]]))"

section \<open>The script as a program over a store\<close>

text \<open>
  The script's tables are objects: \<open>heap\<close> holds them, an address is a position in it, and
  \<open>env\<close> binds the script's variables to addresses. The script has two kinds of
  statements on tables. An assignment \<open>x = e\<close> binds \<open>x\<close> to the object \<open>e\<close> evaluates to;
  every right-hand side of the script ends in an operation that builds a new table
  (\<open>.copy()\<close>, indexing by a mask or by a list of columns, \<open>dropna\<close>, \<open>head\<close>,
  \<open>reset_index\<close>, \<open>pd.concat\<close>, \<open>pd.DataFrame\<close>), so it is an allocation. A column
  assignment \<open>x[c] = e\<close> writes into the object \<open>x\<close> is bound to. \<open>cph\<close> is the fitter
  once fitted, \<open>out\<close> the page rendered so far.
\<close>

record 'm store =
  heap :: "frame list"
  env :: "(string \<times> nat) list"
  cph :: "'m option"
  out :: "event list"

text \<open>A statement runs to a new store, or raises; the store it leaves is kept either
  way.\<close>

type_synonym 'm stmt = "'m store \<Rightarrow> py_error option \<times> 'm store"

definition var :: "'m store \<Rightarrow> string \<Rightarrow> py_error + frame" where
  "var s x =
     (case map_of (env s) x of
        None \<Rightarrow> Inl NameError
      | Some a \<Rightarrow> if a < length (heap s) then Inr (heap s ! a) else Inl NameError)"

definition fitted :: "'m store \<Rightarrow> py_error + 'm" where
  "fitted s = (case cph s of None \<Rightarrow> Inl NameError | Some m \<Rightarrow> Inr m)"

definition assign :: "string \<Rightarrow> ('m store \<Rightarrow> py_error + frame) \<Rightarrow> 'm stmt" where
  "assign x e s =
     (case e s of
        Inl err \<Rightarrow> (Some err, s)
      | Inr df \<Rightarrow> (None, s\<lparr>heap := heap s @ [df], env := (x, length (heap s)) # env s\<rparr>))"

definition setitem :: "string \<Rightarrow> string \<Rightarrow> ('m store \<Rightarrow> py_error + series) \<Rightarrow> 'm stmt" where
  "setitem x c e s =
     (case e s of
        Inl err \<Rightarrow> (Some err, s)
      | Inr vals \<Rightarrow>
          (case map_of (env s) x of
             None \<Rightarrow> (Some NameError, s)
           | Some a \<Rightarrow> (None, s\<lparr>heap := (heap s)[a := setitem_col (heap s ! a) c vals]\<rparr>)))"

definition fit_model :: "('m store \<Rightarrow> py_error + 'm) \<Rightarrow> 'm stmt" where
  "fit_model e s =
     (case e s of Inl err \<Rightarrow> (Some err, s) | Inr m \<Rightarrow> (None, s\<lparr>cph := Some m\<rparr>))"

definition render :: "('m store \<Rightarrow> py_error + event list) \<Rightarrow> 'm stmt" where
  "render e s =
     (case e s of Inl err \<Rightarrow> (Some err, s) | Inr evs \<Rightarrow> (None, s\<lparr>out := out s @ evs\<rparr>))"

fun run :: "'m stmt list \<Rightarrow> 'm store \<Rightarrow> py_error option \<times> 'm store" where
  "run [] s = (None, s)"
| "run (c # cs) s = (case c s of (Some err, s') \<Rightarrow> (Some err, s') | (None, s') \<Rightarrow> run cs s')"

definition if_then :: "('m store \<Rightarrow> py_error + bool) \<Rightarrow> 'm stmt list \<Rightarrow> 'm stmt" where
  "if_then b body s =
     (case b s of
        Inl err \<Rightarrow> (Some err, s)
      | Inr t \<Rightarrow> if t then run body s else (None, s))"

text \<open>The script from line 91 on, statement by statement. The two views with a guard
  (\<open>if len(...) > 0\<close>) are single statements: the guard is in \<open>cohort_view\<close> and
  \<open>bilateral_view\<close>.\<close>

definition script :: "'m library \<Rightarrow> widgets \<Rightarrow> 'm stmt list" where
  "script L w =
     [assign ''data_model'' (\<lambda>s. bind_err (var s ''data'') data_model_selection),
      setitem ''data_model'' ''label'' (\<lambda>s. bind_err (var s ''data_model'') data_model_label),
      fit_model (\<lambda>s. bind_err (var s ''data_model'') (cph_fit L)),
      render (\<lambda>s. bind_err (fitted s) (\<lambda>m.
                  bind_err (getitem_cols (summary L m) [''coef'', ''exp(coef)'', ''p'']) (\<lambda>t.
                  Inr [St_dataframe (round_frame L t 3)]))),
      assign ''terminated_conflicts''
        (\<lambda>s. bind_err (var s ''data_model'') terminated_selection),
      setitem ''terminated_conflicts'' ''start_year''
        (\<lambda>s. bind_err (var s ''data'') (\<lambda>d.
              bind_err (var s ''terminated_conflicts'') (start_year_of L d))),
      setitem ''terminated_conflicts'' ''label''
        (\<lambda>s. bind_err (var s ''terminated_conflicts'') (cohort_label L)),
      assign ''usa_terminated''
        (\<lambda>s. bind_err (var s ''terminated_conflicts'') (usa_terminated L)),
      assign ''other_bigpower_conflicts''
        (\<lambda>s. bind_err (var s ''terminated_conflicts'') (\<lambda>tc.
              bind_err (var s ''usa_terminated'') (other_bigpower_conflicts tc))),
      assign ''additional''
        (\<lambda>s. bind_err (var s ''other_bigpower_conflicts'') (\<lambda>other.
              bind_err (var s ''usa_terminated'') (\<lambda>usa. Inr (additional other usa)))),
      assign ''final_set''
        (\<lambda>s. bind_err (var s ''usa_terminated'') (\<lambda>usa.
              bind_err (var s ''additional'') (\<lambda>add. Inr (final_set usa add)))),
      render (\<lambda>s. bind_err (var s ''final_set'') (\<lambda>fs.
                  bind_err (fitted s) (\<lambda>m. cohort_view L m fs))),
      render (\<lambda>s. bind_err (var s ''data'') (\<lambda>d.
                  bind_err (available_initiators d) (\<lambda>opts.
                  Inr [St_selectbox ''initiator_select'' opts]))),
      render (\<lambda>s. bind_err (var s ''data'') (\<lambda>d.
                  bind_err (available_targets d (selected_initiator w)) (\<lambda>opts.
                  Inr [St_selectbox ''target_select'' opts]))),
      assign ''filtered_conflicts''
        (\<lambda>s. bind_err (var s ''data'') (\<lambda>d.
              filtered_conflicts d (selected_initiator w) (selected_target w))),
      render (\<lambda>s. bind_err (var s ''filtered_conflicts'') (\<lambda>fc.
                  bind_err (getitem_cols fc shown_cols) (\<lambda>t. Inr [St_dataframe t]))),
      render (\<lambda>s. bind_err (var s ''filtered_conflicts'') (\<lambda>fc.
                  bind_err (available_years fc) (\<lambda>opts.
                  Inr [St_selectbox ''year_select'' opts]))),
      assign ''valid_conflicts''
        (\<lambda>s. bind_err (var s ''filtered_conflicts'') valid_selection),
      if_then (\<lambda>s. bind_err (var s ''valid_conflicts'') (\<lambda>vc.
                Inr (''start_year'' \<notin> set (columns vc))))
        [setitem ''valid_conflicts'' ''start_year''
           (\<lambda>s. bind_err (var s ''valid_conflicts'') (valid_start_year L))],
      assign ''conflict_row''
        (\<lambda>s. bind_err (var s ''valid_conflicts'') (\<lambda>vc. conflict_row vc (selected_year w))),
      render (\<lambda>s. bind_err (var s ''conflict_row'') (\<lambda>cr.
                  bind_err (fitted s) (\<lambda>m. bilateral_view L m cr))),
      assign ''custom_input'' (\<lambda>s. Inr (custom_input w)),
      render (\<lambda>s. bind_err (var s ''custom_input'') (\<lambda>ci.
                  bind_err (fitted s) (\<lambda>m. custom_view L m ci)))]"

text \<open>Line 78 has run: \<open>data\<close> is the table read from the file, the only object.\<close>

definition loaded :: "frame \<Rightarrow> 'm store" where
  "loaded d = \<lparr>heap = [d], env = [(''data'', 0)], cph = None, out = []\<rparr>"

definition page :: "'m library \<Rightarrow> widgets \<Rightarrow> frame \<Rightarrow> py_error option \<times> 'm store" where
  "page L w d = run (script L w) (loaded d)"

section \<open>A library and a table to run the script on\<close>

text \<open>
  A stand-in for the libraries: dates start with a four-digit year; \<open>argsort\<close> is a stable
  insertion sort; \<open>str\<close> prints the integer part of a number; the fitter refuses an empty
  table and otherwise keeps the number of rows it saw; the predictor returns one curve per
  row on the grid \<open>0, 12\<close>.
\<close>

definition digit_of :: "char \<Rightarrow> nat option" where
  "digit_of c = (if CHR ''0'' \<le> c \<and> c \<le> CHR ''9'' then Some (of_char c - 48) else None)"

definition example_year :: "cell \<Rightarrow> int option" where
  "example_year c =
     (case c of
        Str (a # b # c # d # _) \<Rightarrow>
          (case (digit_of a, digit_of b, digit_of c, digit_of d) of
             (Some x, Some y, Some z, Some u) \<Rightarrow> Some (int (1000 * x + 100 * y + 10 * z + u))
           | _ \<Rightarrow> None)
      | _ \<Rightarrow> None)"

definition example_argsort :: "cell list \<Rightarrow> nat list" where
  "example_argsort ks = map fst (sort_key (\<lambda>p. cell_rank (snd p)) (zip [0..<length ks] ks))"

fun decimal :: "nat \<Rightarrow> string" where
  "decimal n = (if n < 10 then [char_of (48 + n)] else decimal (n div 10) @ [char_of (48 + n mod 10)])"

definition example_str :: "cell \<Rightarrow> string" where
  "example_str c = (case c of Null \<Rightarrow> ''nan'' | Str s \<Rightarrow> s | Num x \<Rightarrow> decimal (nat \<lfloor>x\<rfloor>))"

definition example_library :: "nat library" where
  "example_library =
     \<lparr>year_of_date = example_year,
      argsort = example_argsort,
      py_str = example_str,
      fit = (\<lambda>df d e. if rows df = [] then Inl (LibraryError 0) else Inr (length (rows df))),
      summary = (\<lambda>m. \<lparr>columns = [''coef'', ''exp(coef)'', ''p''],
                      dtypes = [Numeric, Numeric, Numeric], rows = []\<rparr>),
      round_frame = (\<lambda>df n. df),
      predict_survival_function =
        (\<lambda>m df. Inr \<lparr>timeline = [0, 12], curves = map (\<lambda>r. [1, 1 / 2]) (rows df)\<rparr>)\<rparr>"

definition example_header :: "string list" where
  "example_header =
     [''country_a'', ''country_b'', ''start_date'', ''end_date'', ''start_year'', ''terminated'',
      ''duration_months'', ''number_of_measures'', ''mean_duration_months'', ''gdp_country_a'']"

text \<open>Seven episodes: two of the United States, one of India, two of France against
  Canada that both started in 2017, one with the number of measures missing, and one still
  running.\<close>

definition example_data :: frame where
  "example_data = read_csv example_header
     [[Str ''United States of America'', Str ''India'', Str ''2019-03-01'', Str ''2020-01-01'',
       Num 2019, Num 1, Num 10, Num 3, Num 5, Num 2.3],
      [Str ''United States of America'', Str ''France'', Str ''2018-06-01'', Str ''2020-04-01'',
       Num 2018, Num 1, Num 22, Num 4, Num 6, Num 2.9],
      [Str ''India'', Str ''Japan'', Str ''2020-03-01'', Str ''2022-09-01'',
       Num 2020, Num 1, Num 30, Num 2, Num 7, Num 4],
      [Str ''France'', Str ''Canada'', Str ''2017-02-01'', Str ''2017-09-01'',
       Num 2017, Num 1, Num 7, Num 1, Num 3, Num 1],
      [Str ''Japan'', Str ''India'', Str ''2016-05-01'', Str ''2016-08-01'',
       Num 2016, Num 1, Num 3, Null, Num 2, Num 1],
      [Str ''France'', Str ''Canada'', Str ''2017-10-01'', Str ''2018-10-01'',
       Num 2017, Num 1, Num 12, Num 2, Num 8, Num 2],
      [Str ''Russia'', Str ''Japan'', Str ''2015-01-01'', Null,
       Num 2015, Num 0, Num 40, Num 5, Num 9, Num 1.5]]"

text \<open>The prepared table of the example (lines 91 to 96) and its table of terminated
  conflicts (lines 117 to 127), written out.\<close>

definition example_dm :: frame where
  "example_dm =
     \<lparr>columns = [''country_a'', ''country_b'', ''gdp_country_a'', ''number_of_measures'',
                 ''mean_duration_months'', ''duration_months'', ''terminated'', ''label''],
      dtypes = [Object, Object, Numeric, Numeric, Numeric, Numeric, Numeric, Object],
      rows = [
      (0, [Str ''United States of America'', Str ''India'', Num (23 / 10), Num 3, Num 5, Num 10, Num 1,
           Str (''United States of America'' @ dash @ ''India'')]),
      (1, [Str ''United States of America'', Str ''France'', Num (29 / 10), Num 4, Num 6, Num 22, Num 1,
           Str (''United States of America'' @ dash @ ''France'')]),
      (2, [Str ''India'', Str ''Japan'', Num 4, Num 2, Num 7, Num 30, Num 1,
           Str (''India'' @ dash @ ''Japan'')]),
      (3, [Str ''France'', Str ''Canada'', Num 1, Num 1, Num 3, Num 7, Num 1,
           Str (''France'' @ dash @ ''Canada'')]),
      (5, [Str ''France'', Str ''Canada'', Num 2, Num 2, Num 8, Num 12, Num 1,
           Str (''France'' @ dash @ ''Canada'')]),
      (6, [Str ''Russia'', Str ''Japan'', Num (3 / 2), Num 5, Num 9, Num 40, Num 0,
           Str (''Russia'' @ dash @ ''Japan'')])]\<rparr>"

definition example_tc :: frame where
  "example_tc =
     \<lparr>columns = [''country_a'', ''country_b'', ''gdp_country_a'', ''number_of_measures'',
                 ''mean_duration_months'', ''duration_months'', ''terminated'', ''label'',
                 ''start_year''],
      dtypes = [Object, Object, Numeric, Numeric, Numeric, Numeric, Numeric, Object, Numeric],
      rows = [
      (0, [Str ''United States of America'', Str ''India'', Num (23 / 10), Num 3, Num 5, Num 10, Num 1,
           Str (''United States of America'' @ dash @ ''India (2019)''), Num 2019]),
      (1, [Str ''United States of America'', Str ''France'', Num (29 / 10), Num 4, Num 6, Num 22, Num 1,
           Str (''United States of America'' @ dash @ ''France (2018)''), Num 2018]),
      (2, [Str ''India'', Str ''Japan'', Num 4, Num 2, Num 7, Num 30, Num 1,
           Str (''India'' @ dash @ ''Japan (2020)''), Num 2020]),
      (3, [Str ''France'', Str ''Canada'', Num 1, Num 1, Num 3, Num 7, Num 1,
           Str (''France'' @ dash @ ''Canada (2017)''), Num 2017]),
      (5, [Str ''France'', Str ''Canada'', Num 2, Num 2, Num 8, Num 12, Num 1,
           Str (''France'' @ dash @ ''Canada (2017)''), Num 2017])]\<rparr>"

definition example_widgets :: widgets where
  "example_widgets =
     \<lparr>selected_initiator = Str ''France'', selected_target = Str ''Canada'',
      selected_year = Num 2017, gdp_input = 2.3, measures_input = 15, duration_input = 8\<rparr>"

section \<open>Notions the statements use\<close>

text \<open>The value of a row in a column of its frame; a row that has a value in each of the
  columns \<open>cs\<close>; the rows of a frame read at the columns \<open>cs\<close>, with their index labels.\<close>

definition cell_at :: "frame \<Rightarrow> nat \<times> cell list \<Rightarrow> string \<Rightarrow> cell" where
  "cell_at df r c = cell_of (columns df) (snd r) c"

definition complete :: "frame \<Rightarrow> string list \<Rightarrow> nat \<times> cell list \<Rightarrow> bool" where
  "complete df cs r = list_all (\<lambda>c. cell_at df r c \<noteq> Null) cs"

definition read_at :: "frame \<Rightarrow> string list \<Rightarrow> nat \<times> cell list \<Rightarrow> nat \<times> cell list" where
  "read_at df cs r = (fst r, map (cell_at df r) cs)"

text \<open>A column of names is a string column: its dtype is \<open>object\<close>, and it holds strings
  where it holds anything. (A column that \<open>read_csv\<close> found blank throughout is a number
  column, not a column of names.)\<close>

definition names_in :: "frame \<Rightarrow> string \<Rightarrow> bool" where
  "names_in df c =
     (dtype_at df c = Object
      \<and> list_all (\<lambda>r. cell_at df r c = Null \<or> is_str (cell_at df r c)) (rows df))"

text \<open>The columns selected on lines 91 to 93, in the order of the selection.\<close>

definition prepared_cols :: "string list" where
  "prepared_cols = [''country_a'', ''country_b''] @ features @ [''duration_months'', ''terminated'']"

text \<open>A row of the pair (initiator, target); a row that started in a given year.\<close>

definition of_pair :: "frame \<Rightarrow> cell \<Rightarrow> cell \<Rightarrow> nat \<times> cell list \<Rightarrow> bool" where
  "of_pair df si st r =
     (cell_eq (cell_at df r ''country_a'') si \<and> cell_eq (cell_at df r ''country_b'') st)"

definition started_in :: "frame \<Rightarrow> cell \<Rightarrow> nat \<times> cell list \<Rightarrow> bool" where
  "started_in df sy r = cell_eq (cell_at df r ''start_year'') sy"

text \<open>A column of years holds numbers, where it holds anything; the order of two rows by
  their values in a column (a missing value counts as the greatest).\<close>

definition numbers_in :: "frame \<Rightarrow> string \<Rightarrow> bool" where
  "numbers_in df c = list_all (\<lambda>r. cell_at df r c = Null \<or> is_num (cell_at df r c)) (rows df)"

definition key_le :: "frame \<Rightarrow> string \<Rightarrow> nat \<times> cell list \<Rightarrow> nat \<times> cell list \<Rightarrow> bool" where
  "key_le df c r r' = cell_le (cell_at df r c) (cell_at df r' c)"

text \<open>The two selections of the cohort view: a row of the United States against a big
  power; a row of another big power against a big power whose index label is not among the
  labels already taken.\<close>

definition usa_row :: "frame \<Rightarrow> nat \<times> cell list \<Rightarrow> bool" where
  "usa_row df r =
     (cell_at df r ''country_a'' = Str ''United States of America''
      \<and> cell_at df r ''country_b'' \<in> Str ` set big_players)"

definition other_row :: "frame \<Rightarrow> nat list \<Rightarrow> nat \<times> cell list \<Rightarrow> bool" where
  "other_row df taken r =
     (cell_at df r ''country_a'' \<in> Str ` set big_players
      \<and> cell_at df r ''country_a'' \<noteq> Str ''United States of America''
      \<and> cell_at df r ''country_b'' \<in> Str ` set big_players
      \<and> fst r \<notin> set taken)"

section \<open>Basic facts about the table operations\<close>

lemma bind_err_Inl [simp]: "bind_err (Inl e) f = Inl e"
  by (simp add: bind_err_def)

lemma bind_err_Inr [simp]: "bind_err (Inr a) f = f a"
  by (simp add: bind_err_def)

lemma sequence_map_Inr:
  "(\<And>x. x \<in> set xs \<Longrightarrow> f x = Inr (g x)) \<Longrightarrow> sequence (map f xs) = Inr (map g xs)"
  by (induction xs) simp_all

lemma cell_of_map: "c \<in> set cs \<Longrightarrow> cell_of cs (map f cs) c = f c"
  by (simp add: cell_of_def map_of_zip_map)

lemma cell_of_append:
  "length r = length cs \<Longrightarrow> c \<in> set cs \<Longrightarrow> cell_of (cs @ cs') (r @ r') c = cell_of cs r c"
proof -
  assume len: "length r = length cs" and c: "c \<in> set cs"
  then have "c \<in> dom (map_of (zip cs r))" by simp
  then obtain v where "map_of (zip cs r) c = Some v" by auto
  then show ?thesis using len by (simp add: cell_of_def map_add_Some_iff)
qed

lemma map_map2_left:
  "length ys = length xs \<Longrightarrow> (\<And>x y. x \<in> set xs \<Longrightarrow> f (g x y) = h x)
   \<Longrightarrow> map f (map2 g xs ys) = map h xs"
  by (induction ys xs rule: list_induct2) simp_all

lemma sequence_length: "sequence xs = Inr ys \<Longrightarrow> length ys = length xs"
proof (induction xs arbitrary: ys)
  case Nil
  then show ?case by simp
next
  case (Cons x xs)
  then show ?case
    by (cases x; cases "sequence xs") auto
qed

lemma dtype_at_map: "c \<in> set cs \<Longrightarrow> dtype_at \<lparr>columns = cs, dtypes = map f cs, rows = R\<rparr> c = f c"
  by (simp add: dtype_at_def map_of_zip_map)

lemma add_scalar_str:
  "list_all is_str xs \<Longrightarrow>
   \<exists>ys. sequence (map (\<lambda>x. cell_add x (Str v)) xs) = Inr ys \<and> length ys = length xs
        \<and> list_all is_str ys"
proof (induction xs)
  case Nil
  then show ?case by simp
next
  case (Cons x xs)
  then obtain ys where ys: "sequence (map (\<lambda>x. cell_add x (Str v)) xs) = Inr ys"
      "length ys = length xs" "list_all is_str ys"
    by auto
  from Cons.prems obtain s where "x = Str s" by (cases x) auto
  with ys show ?case by simp
qed

lemma series_add_scalar_str:
  assumes "dtype a = Object" "list_all is_str (cells a)"
  shows "\<exists>c. series_add_scalar a (Str v) = Inr c \<and> dtype c = Object
             \<and> length (cells c) = length (cells a) \<and> list_all is_str (cells c)"
  using add_scalar_str [OF assms(2), of v] assms(1)
  by (auto simp: series_add_scalar_def)

lemma add_str:
  "length xs = length ys \<Longrightarrow> list_all is_str xs \<Longrightarrow> list_all is_str ys \<Longrightarrow>
   \<exists>zs. sequence (map2 cell_add xs ys) = Inr zs \<and> length zs = length xs \<and> list_all is_str zs"
proof (induction xs ys rule: list_induct2)
  case Nil
  then show ?case by simp
next
  case (Cons x xs y ys)
  then obtain zs where zs: "sequence (map2 cell_add xs ys) = Inr zs" "length zs = length xs"
      "list_all is_str zs"
    by auto
  from Cons.prems obtain s t where "x = Str s" "y = Str t" by (cases x; cases y) auto
  with zs show ?case by simp
qed

lemma series_add_str:
  assumes "length (cells a) = length (cells b)" "list_all is_str (cells a)"
      "list_all is_str (cells b)"
  shows "\<exists>c. series_add a b = Inr c \<and> length (cells c) = length (cells a)
             \<and> list_all is_str (cells c)"
  using add_str [OF assms] by (auto simp: series_add_def)

text \<open>Selecting columns and dropping the incomplete rows.\<close>

lemma getitem_cols_dropna:
  assumes "set cs \<subseteq> set (columns df)"
  shows "bind_err (getitem_cols df cs) (\<lambda>sel. Inr (dropna sel))
         = Inr \<lparr>columns = cs, dtypes = map (dtype_at df) cs,
                rows = map (read_at df cs) (filter (complete df cs) (rows df))\<rparr>"
proof -
  have "filter (\<lambda>r. Null \<notin> set (snd r)) (map (\<lambda>r. (fst r, map (cell_of (columns df) (snd r)) cs)) xs)
        = map (read_at df cs) (filter (complete df cs) xs)" for xs
    by (induction xs) (auto simp: read_at_def complete_def cell_at_def list_all_iff intro: rev_image_eqI)
  then show ?thesis using assms by (simp add: getitem_cols_def dropna_def)
qed

section \<open>Feature preparation\<close>

lemma getitem_col_read_at:
  "c \<in> set cs \<Longrightarrow>
   getitem_col \<lparr>columns = cs, dtypes = map (dtype_at df) cs, rows = map (read_at df cs) R\<rparr> c
   = Inr \<lparr>dtype = dtype_at df c, cells = map (\<lambda>r. cell_at df r c) R\<rparr>"
  by (simp add: getitem_col_def read_at_def cell_of_map dtype_at_map)

lemma data_model_label_total:
  assumes a: "getitem_col dm ''country_a'' = Inr a" "dtype a = Object" "list_all is_str (cells a)"
      and b: "getitem_col dm ''country_b'' = Inr b" "list_all is_str (cells b)"
      and len: "length (cells a) = length (cells b)"
  shows "\<exists>lab. data_model_label dm = Inr lab \<and> length (cells lab) = length (cells a)"
proof -
  obtain a1 where a1: "series_add_scalar a (Str dash) = Inr a1"
      "length (cells a1) = length (cells a)" "list_all is_str (cells a1)"
    using series_add_scalar_str [OF a(2,3)] by blast
  obtain lab where "series_add a1 b = Inr lab" "length (cells lab) = length (cells a1)"
    using series_add_str [of a1 b] a1 b(2) len by auto
  then show ?thesis using a(1) b(1) a1 by (simp add: data_model_label_def)
qed

text \<open>The error path of line 96: a country column that is a number column (blank in every
  line of the file, say) makes the label raise, whatever rows are left.\<close>

lemma data_model_label_numeric:
  assumes "''country_a'' \<in> set (columns dm)" "dtype_at dm ''country_a'' = Numeric"
  shows "data_model_label dm = Inl TypeError"
  using assms by (simp add: data_model_label_def getitem_col_def series_add_scalar_def)

text \<open>
  Claim C4. If the raw table has the seven columns selected on lines 91 to 93 and its two
  country columns are columns of names (string columns, so that the label of line 96 can be
  formed), feature preparation returns a table \<open>dm\<close>: it has the
  seven columns (the two country names among them) and the label; read at the seven
  columns, its rows are exactly the raw rows that have a value in each of the seven
  columns, in the raw order and under their raw index labels, so no row is made up; and
  every row of \<open>dm\<close> has a value in each of the five fields the fit needs.
\<close>

theorem feature_preparation:
  assumes cols: "set prepared_cols \<subseteq> set (columns data)"
      and na: "names_in data ''country_a''" and nb: "names_in data ''country_b''"
  shows "\<exists>dm. data_model data = Inr dm
           \<and> columns dm = prepared_cols @ [''label'']
           \<and> map (read_at dm prepared_cols) (rows dm)
               = map (read_at data prepared_cols) (filter (complete data prepared_cols) (rows data))
           \<and> list_all (complete dm [''gdp_country_a'', ''number_of_measures'',
                                     ''mean_duration_months'', ''duration_months'', ''terminated''])
                 (rows dm)"
proof -
  define R where "R = filter (complete data prepared_cols) (rows data)"
  define dm0 where "dm0 = \<lparr>columns = prepared_cols, dtypes = map (dtype_at data) prepared_cols,
                            rows = map (read_at data prepared_cols) R\<rparr>"
  have sel: "data_model_selection data = Inr dm0"
    using getitem_cols_dropna [OF cols]
    by (simp add: data_model_selection_def dm0_def R_def prepared_cols_def)
  have ca: "''country_a'' \<in> set prepared_cols" and cb: "''country_b'' \<in> set prepared_cols"
    by (simp_all add: prepared_cols_def)
  define a where "a = \<lparr>dtype = dtype_at data ''country_a'',
                         cells = map (\<lambda>r. cell_at data r ''country_a'') R\<rparr>"
  define b where "b = \<lparr>dtype = dtype_at data ''country_b'',
                         cells = map (\<lambda>r. cell_at data r ''country_b'') R\<rparr>"
  have ga: "getitem_col dm0 ''country_a'' = Inr a"
    unfolding dm0_def a_def by (rule getitem_col_read_at [OF ca])
  have gb: "getitem_col dm0 ''country_b'' = Inr b"
    unfolding dm0_def b_def by (rule getitem_col_read_at [OF cb])
  have da: "dtype a = Object" using na by (simp add: a_def names_in_def)
  have str: "is_str (cell_at data r c)"
    if "r \<in> set R" "c \<in> set prepared_cols" "names_in data c" for r c
  proof -
    from that(1) have "r \<in> set (rows data)" "complete data prepared_cols r"
      by (simp_all add: R_def)
    with that(2,3) show ?thesis
      by (auto simp: complete_def names_in_def list_all_iff)
  qed
  have sa: "list_all is_str (cells a)"
    using str [OF _ ca na] by (simp add: a_def list_all_iff)
  have sb: "list_all is_str (cells b)"
    using str [OF _ cb nb] by (simp add: b_def list_all_iff)
  have "length (cells a) = length (cells b)" by (simp add: a_def b_def)
  from data_model_label_total [OF ga da sa gb sb this]
  obtain lab where lab: "data_model_label dm0 = Inr lab" "length (cells lab) = length R"
    by (auto simp: a_def)
  define dm where "dm = setitem_col dm0 ''label'' lab"
  have dm: "data_model data = Inr dm"
    by (simp add: data_model_def sel lab dm_def)
  have nl: "''label'' \<notin> set prepared_cols"
    by (simp add: prepared_cols_def features_def)
  have cdm: "columns dm = prepared_cols @ [''label'']"
    using nl by (simp add: dm_def setitem_col_def dm0_def)
  have rdm: "rows dm = map2 (\<lambda>r v. (fst r, snd r @ [v])) (map (read_at data prepared_cols) R)
                         (cells lab)"
    using nl by (simp add: dm_def setitem_col_def dm0_def)
  have val: "cell_at dm (fst (read_at data prepared_cols r), snd (read_at data prepared_cols r) @ [v]) c
             = cell_at data r c" if "c \<in> set prepared_cols" for r v c
    using that by (simp add: cell_at_def cdm read_at_def cell_of_append cell_of_map)
  have rd: "map (read_at dm prepared_cols) (rows dm) = map (read_at data prepared_cols) R"
    unfolding rdm
  proof (subst map_map2_left [where h = "\<lambda>x. x"])
    show "length (cells lab) = length (map (read_at data prepared_cols) R)" using lab by simp
    show "read_at dm prepared_cols (fst x, snd x @ [y]) = x"
      if "x \<in> set (map (read_at data prepared_cols) R)" for x y
    proof -
      from that obtain r where x: "x = read_at data prepared_cols r" by auto
      have "map (cell_at dm (fst x, snd x @ [y])) prepared_cols = map (cell_at data r) prepared_cols"
        unfolding x by (rule map_cong [OF refl]) (rule val)
      then show ?thesis by (simp add: read_at_def x)
    qed
    show "map (\<lambda>x. x) (map (read_at data prepared_cols) R) = map (read_at data prepared_cols) R"
      by simp
  qed
  have "complete dm [''gdp_country_a'', ''number_of_measures'', ''mean_duration_months'',
                     ''duration_months'', ''terminated''] x" if "x \<in> set (rows dm)" for x
  proof -
    from that obtain i where i: "i < length R"
      and xi: "x = (fst (read_at data prepared_cols (R ! i)),
                    snd (read_at data prepared_cols (R ! i)) @ [cells lab ! i])"
      unfolding rdm by (auto simp: set_zip)
    define r where "r = R ! i"
    define v where "v = cells lab ! i"
    have r: "r \<in> set R" using i by (simp add: r_def)
    have x: "x = (fst (read_at data prepared_cols r), snd (read_at data prepared_cols r) @ [v])"
      using xi by (simp add: r_def v_def)
    from r have "complete data prepared_cols r" by (simp add: R_def)
    then have nn: "cell_at data r c \<noteq> Null" if "c \<in> set prepared_cols" for c
      using that by (simp add: complete_def list_all_iff)
    have "cell_at dm x c \<noteq> Null" if "c \<in> set prepared_cols" for c
      unfolding x using val [OF that] nn [OF that] by simp
    moreover have "set [''gdp_country_a'', ''number_of_measures'', ''mean_duration_months'',
                        ''duration_months'', ''terminated''] \<subseteq> set prepared_cols"
      by (simp add: prepared_cols_def features_def)
    ultimately show ?thesis
      unfolding complete_def list_all_iff by blast
  qed
  then have "list_all (complete dm [''gdp_country_a'', ''number_of_measures'',
               ''mean_duration_months'', ''duration_months'', ''terminated'']) (rows dm)"
    by (simp add: list_all_iff)
  with dm cdm rd show ?thesis by (auto simp: R_def)
qed

text \<open>A file whose every line leaves \<open>country_a\<close> blank: the column is read as numbers,
  and line 96 raises although no complete row is left to label.\<close>

lemma blank_country_raises:
  "data_model (read_csv prepared_cols
      [[Null, Str ''India'', Num 1, Num 2, Num 3, Num 4, Num 1],
       [Null, Str ''Japan'', Num 1, Num 2, Num 3, Num 4, Num 0]]) = Inl TypeError"
  by code_simp

lemma example_data_cols: "set prepared_cols \<subseteq> set (columns example_data)"
  by (simp add: prepared_cols_def features_def example_data_def example_header_def read_csv_def)

lemma example_names_a: "names_in example_data ''country_a''"
  by code_simp

lemma example_names_b: "names_in example_data ''country_b''"
  by code_simp

theorem feature_preparation_witness:
  "set prepared_cols \<subseteq> set (columns example_data)
   \<and> names_in example_data ''country_a'' \<and> names_in example_data ''country_b''
   \<and> (\<exists>dm. data_model example_data = Inr dm
           \<and> columns dm = prepared_cols @ [''label'']
           \<and> map (read_at dm prepared_cols) (rows dm)
               = map (read_at example_data prepared_cols)
                   (filter (complete example_data prepared_cols) (rows example_data))
           \<and> list_all (complete dm [''gdp_country_a'', ''number_of_measures'',
                                     ''mean_duration_months'', ''duration_months'', ''terminated''])
                 (rows dm))
   \<and> map fst (filter (complete example_data prepared_cols) (rows example_data)) = [0, 1, 2, 3, 5, 6]"
proof -
  have "map fst (filter (complete example_data prepared_cols) (rows example_data)) = [0, 1, 2, 3, 5, 6]"
    by code_simp
  then show ?thesis
    using feature_preparation [OF example_data_cols example_names_a example_names_b]
      example_data_cols example_names_a example_names_b
    by blast
qed

section \<open>Selections by mask\<close>

text \<open>A comparison of a column with a value, used as a mask, keeps the rows that satisfy
  it, in order and under their index labels.\<close>

lemma getitem_col_eq:
  "c \<in> set (columns df) \<Longrightarrow>
   getitem_col df c = Inr \<lparr>dtype = dtype_at df c, cells = map (\<lambda>r. cell_at df r c) (rows df)\<rparr>"
  by (simp add: getitem_col_def cell_at_def)

lemma series_eq_map: "series_eq \<lparr>dtype = d, cells = map g xs\<rparr> v = map (\<lambda>r. cell_eq (g r) v) xs"
  by (simp add: series_eq_def)

lemma series_ne_map: "series_ne \<lparr>dtype = d, cells = map g xs\<rparr> v = map (\<lambda>r. \<not> cell_eq (g r) v) xs"
  by (simp add: series_ne_def)

lemma isin_map: "isin \<lparr>dtype = d, cells = map g xs\<rparr> vs = map (\<lambda>r. g r \<in> Str ` set vs) xs"
  by (simp add: isin_def)

lemma mask_and_map: "mask_and (map p xs) (map q xs) = map (\<lambda>r. p r \<and> q r) xs"
  by (induction xs) (simp_all add: mask_and_def)

lemma mask_not_map: "mask_not (map p xs) = map (\<lambda>r. \<not> p r) xs"
  by (simp add: mask_not_def)

lemma mask_rows: "map snd (filter fst (zip (map p xs) xs)) = filter p xs"
  by (induction xs) simp_all

lemma getitem_mask_map: "getitem_mask df (map p (rows df)) = df\<lparr>rows := filter p (rows df)\<rparr>"
  by (simp add: getitem_mask_def mask_rows)

lemma cell_at_rows_update [simp]: "cell_at (df\<lparr>rows := rs\<rparr>) r c = cell_at df r c"
  by (simp add: cell_at_def)

lemma of_pair_fun:
  "of_pair df si st
   = (\<lambda>r. cell_eq (cell_at df r ''country_a'') si \<and> cell_eq (cell_at df r ''country_b'') st)"
  by (rule ext) (simp add: of_pair_def)

lemma started_in_fun: "started_in df sy = (\<lambda>r. cell_eq (cell_at df r ''start_year'') sy)"
  by (rule ext) (simp add: started_in_def)

lemma complete_fun:
  "complete df cs = (\<lambda>r. \<forall>c \<in> set cs. cell_of (columns df) (snd r) c \<noteq> Null)"
  by (rule ext) (simp add: complete_def cell_at_def list_all_iff)

lemma filtered_conflicts_eq:
  assumes "''country_a'' \<in> set (columns data)" "''country_b'' \<in> set (columns data)"
  shows "filtered_conflicts data si st = Inr (data\<lparr>rows := filter (of_pair data si st) (rows data)\<rparr>)"
  using assms
  by (simp add: filtered_conflicts_def getitem_col_eq series_eq_map mask_and_map
      getitem_mask_map of_pair_fun bind_err_def)

lemma dropna_subset_eq:
  "set cs \<subseteq> set (columns df) \<Longrightarrow>
   dropna_subset df cs = Inr (df\<lparr>rows := filter (complete df cs) (rows df)\<rparr>)"
  by (simp add: dropna_subset_def complete_fun)

lemma complete_rows_update [simp]: "complete (df\<lparr>rows := rs\<rparr>) cs r = complete df cs r"
  by (simp add: complete_def)

lemma filter_filter_filter:
  "filter p (filter q (filter r xs)) = filter (\<lambda>x. r x \<and> q x \<and> p x) xs"
  by (induction xs) simp_all

lemma drill_down_eq:
  assumes "''country_a'' \<in> set (columns data)" "''country_b'' \<in> set (columns data)"
      and "''start_year'' \<in> set (columns data)" "set required_cols \<subseteq> set (columns data)"
  shows "drill_down L data si st sy
         = Inr (data\<lparr>rows := filter (\<lambda>r. of_pair data si st r \<and> complete data required_cols r
                                        \<and> started_in data sy r) (rows data)\<rparr>)"
proof -
  let ?fc = "data\<lparr>rows := filter (of_pair data si st) (rows data)\<rparr>"
  let ?vc = "data\<lparr>rows := filter (complete data required_cols) (filter (of_pair data si st) (rows data))\<rparr>"
  have fc: "filtered_conflicts data si st = Inr ?fc"
    using assms(1,2) by (rule filtered_conflicts_eq)
  have "valid_selection ?fc = Inr ?vc"
    using assms(4) dropna_subset_eq [of required_cols ?fc] by (simp add: valid_selection_def)
  then have vc: "valid_conflicts L ?fc = Inr ?vc"
    using assms(3) by (simp add: valid_conflicts_def bind_err_def)
  have "conflict_row ?vc sy
        = Inr (data\<lparr>rows := filter (started_in data sy)
                 (filter (complete data required_cols) (filter (of_pair data si st) (rows data)))\<rparr>)"
    using assms(3) getitem_mask_map [of ?vc "started_in data sy"]
    by (simp add: conflict_row_def getitem_col_eq series_eq_map bind_err_def started_in_fun)
  then show ?thesis
    by (simp add: drill_down_def fc vc bind_err_def filter_filter_filter)
qed

lemma bind_err_Inr_iff:
  "bind_err m f = Inr y \<longleftrightarrow> (\<exists>x. m = Inr x \<and> f x = Inr y)"
  by (cases m) (simp_all add: bind_err_def)

lemma getitem_cols_index: "getitem_cols df cs = Inr x \<Longrightarrow> index x = index df"
  by (auto simp: getitem_cols_def index_def o_def split: if_splits)

lemma bilateral_view_plot:
  assumes "0 < len cr" "bilateral_view L m cr = Inr evs"
  shows "\<exists>lab x sp c. label_text L cr = Inr lab
           \<and> getitem_cols cr required_cols = Inr x \<and> index x = index cr
           \<and> predict_survival_function L m x = Inr sp
           \<and> iloc (curves sp) 0 = Inr c
           \<and> evs = [St_pyplot [\<lparr>legend = lab, xdata = timeline sp, ydata = c\<rparr>]]"
proof -
  from assms obtain lab x sp c where
    "label_text L cr = Inr lab" "getitem_cols cr required_cols = Inr x"
    "predict_survival_function L m x = Inr sp" "iloc (curves sp) 0 = Inr c"
    "evs = [St_pyplot [\<lparr>legend = lab, xdata = timeline sp, ydata = c\<rparr>]]"
    by (auto simp: bilateral_view_def bind_err_Inr_iff)
  then show ?thesis using getitem_cols_index by blast
qed

section \<open>The bilateral drill-down\<close>

text \<open>
  Claim C8 (as amended). Let the raw table have the columns \<open>country_a\<close>, \<open>country_b\<close>,
  \<open>start_year\<close> and the five required columns (the three covariates, the duration and the
  event indicator). For a chosen initiator and target,
  \<open>filtered_conflicts\<close> is the raw table restricted to all rows of that pair. For a chosen
  start year in addition, \<open>conflict_row\<close> is the raw table restricted to every row of the
  pair that has a value in each required column and whose start year is the chosen one: none, one, or
  several rows, in the raw order and under their raw index labels. Whenever the view of a
  non-empty \<open>conflict_row\<close> returns, the predictor was called on all of its rows (read at
  the required columns), and what is drawn is one line: the first curve of the prediction,
  under the label made from the first row.
\<close>

theorem bilateral_drill_down:
  assumes "''country_a'' \<in> set (columns data)" "''country_b'' \<in> set (columns data)"
      and "''start_year'' \<in> set (columns data)" "set required_cols \<subseteq> set (columns data)"
  shows "filtered_conflicts data si st
           = Inr (data\<lparr>rows := filter (of_pair data si st) (rows data)\<rparr>)
       \<and> drill_down L data si st sy
           = Inr (data\<lparr>rows := filter (\<lambda>r. of_pair data si st r \<and> complete data required_cols r
                                          \<and> started_in data sy r) (rows data)\<rparr>)
       \<and> (\<forall>cr evs. 0 < len cr \<and> bilateral_view L m cr = Inr evs \<longrightarrow>
            (\<exists>lab x sp c. label_text L cr = Inr lab
               \<and> getitem_cols cr required_cols = Inr x \<and> index x = index cr
               \<and> predict_survival_function L m x = Inr sp
               \<and> iloc (curves sp) 0 = Inr c
               \<and> evs = [St_pyplot [\<lparr>legend = lab, xdata = timeline sp, ydata = c\<rparr>]]))"
proof (intro conjI allI impI)
  show "filtered_conflicts data si st
          = Inr (data\<lparr>rows := filter (of_pair data si st) (rows data)\<rparr>)"
    using assms(1,2) by (rule filtered_conflicts_eq)
  show "drill_down L data si st sy
          = Inr (data\<lparr>rows := filter (\<lambda>r. of_pair data si st r \<and> complete data required_cols r
                                         \<and> started_in data sy r) (rows data)\<rparr>)"
    using assms by (rule drill_down_eq)
next
  fix cr evs
  assume "0 < len cr \<and> bilateral_view L m cr = Inr evs"
  then show "\<exists>lab x sp c. label_text L cr = Inr lab
               \<and> getitem_cols cr required_cols = Inr x \<and> index x = index cr
               \<and> predict_survival_function L m x = Inr sp
               \<and> iloc (curves sp) 0 = Inr c
               \<and> evs = [St_pyplot [\<lparr>legend = lab, xdata = timeline sp, ydata = c\<rparr>]]"
    using bilateral_view_plot [of cr L m evs] by simp
qed

text \<open>The selected row is not unique: in the example table the pair France, Canada has two
  complete rows that started in 2017 (index labels 3 and 5), \<open>conflict_row\<close> holds both and
  the predictor receives both.\<close>

theorem drill_down_two_rows:
  "bind_err (drill_down example_library example_data (Str ''France'') (Str ''Canada'') (Num 2017))
     (\<lambda>cr. bind_err (getitem_cols cr required_cols) (\<lambda>x. Inr (index cr, len x)))
   = Inr ([3, 5], 2)"
  by code_simp

lemma example_drill_cols:
  "''country_a'' \<in> set (columns example_data)" "''country_b'' \<in> set (columns example_data)"
  "''start_year'' \<in> set (columns example_data)" "set required_cols \<subseteq> set (columns example_data)"
  by (simp_all add: example_data_def example_header_def read_csv_def required_cols_def)

theorem bilateral_drill_down_witness:
  "\<exists>cr. drill_down example_library example_data (Str ''France'') (Str ''Canada'') (Num 2017) = Inr cr
      \<and> index cr = [3, 5]
      \<and> (\<exists>lab x sp c. label_text example_library cr = Inr lab
            \<and> getitem_cols cr required_cols = Inr x \<and> index x = index cr
            \<and> predict_survival_function example_library 5 x = Inr sp
            \<and> iloc (curves sp) 0 = Inr c
            \<and> [St_pyplot [\<lparr>legend = Str (''France'' @ dash @ ''Canada (2017)''),
                            xdata = [0, 12], ydata = [1, 1 / 2]\<rparr>]]
                = [St_pyplot [\<lparr>legend = lab, xdata = timeline sp, ydata = c\<rparr>]])"
proof -
  define cr where "cr = example_data\<lparr>rows :=
     filter (\<lambda>r. of_pair example_data (Str ''France'') (Str ''Canada'') r
                \<and> complete example_data required_cols r
                \<and> started_in example_data (Num 2017) r) (rows example_data)\<rparr>"
  note inst = bilateral_drill_down [OF example_drill_cols,
      of "Str ''France''" "Str ''Canada''" example_library "Num 2017" 5]
  have d: "drill_down example_library example_data (Str ''France'') (Str ''Canada'') (Num 2017) = Inr cr"
    unfolding cr_def by (rule inst [THEN conjunct2, THEN conjunct1])
  have i: "index cr = [3, 5]" unfolding cr_def by code_simp
  have l: "0 < len cr" unfolding cr_def by code_simp
  have v: "bilateral_view example_library 5 cr
           = Inr [St_pyplot [\<lparr>legend = Str (''France'' @ dash @ ''Canada (2017)''),
                              xdata = [0, 12], ydata = [1, 1 / 2]\<rparr>]]"
    unfolding cr_def by code_simp
  note p = inst [THEN conjunct2, THEN conjunct2, rule_format, OF conjI [OF l v]]
  show ?thesis
    by (rule exI [of _ cr], rule conjI [OF d], rule conjI [OF i], rule p)
qed

section \<open>Sorting, grouping and the cohort selection\<close>

lemma example_argsort_ok: "argsort_ok example_argsort"
  unfolding argsort_ok_def
proof (intro allI conjI)
  fix ks :: "cell list"
  let ?S = "sort_key (\<lambda>p. cell_rank (snd p)) (zip [0..<length ks] ks)"
  have "mset (map fst ?S) = mset (map fst (zip [0..<length ks] ks))"
    by (simp only: mset_map mset_sort)
  also have "map fst (zip [0..<length ks] ks) = [0..<length ks]"
    by (simp only: map_fst_zip length_upt diff_zero)
  finally show "mset (example_argsort ks) = mset [0..<length ks]"
    by (simp add: example_argsort_def)
  have "p \<in> set ?S \<Longrightarrow> ks ! fst p = snd p" for p
    by (auto simp: set_zip)
  then have eq: "map (\<lambda>i. ks ! i) (map fst ?S) = map snd ?S"
    unfolding map_map by (intro map_cong refl) simp
  have "sorted (map (\<lambda>p. cell_rank (snd p)) ?S)"
    by (rule sorted_sort_key)
  then have "sorted_wrt cell_le (map snd ?S)"
    by (simp add: sorted_wrt_map cell_le_def sorted_map)
  then show "sorted_wrt cell_le (map (\<lambda>i. ks ! i) (example_argsort ks))"
    unfolding example_argsort_def eq .
qed

lemma argsort_perm:
  assumes "argsort_ok f" "length ks = length xs"
  shows "mset (map (\<lambda>i. xs ! i) (f ks)) = mset xs"
proof -
  from assms have eq: "mset (f ks) = mset [0..<length xs]"
    unfolding argsort_ok_def by metis
  have "mset (map (\<lambda>i. xs ! i) (f ks)) = image_mset (\<lambda>i. xs ! i) (mset (f ks))"
    by (simp only: mset_map)
  also have "\<dots> = mset (map (\<lambda>i. xs ! i) [0..<length xs])"
    by (simp only: eq mset_map)
  also have "\<dots> = mset xs" by (simp only: map_nth)
  finally show ?thesis .
qed

lemma argsort_bound:
  assumes "argsort_ok f" "i \<in> set (f ks)"
  shows "i < length ks"
proof -
  from assms(1) have "set (f ks) = set [0..<length ks]"
    unfolding argsort_ok_def by (metis set_mset_mset)
  with assms(2) show ?thesis by simp
qed


lemma cell_le_Null [simp]: "cell_le x Null"
  by (cases x) (simp_all add: cell_le_def less_eq_prod_def)

lemma zip_keys: "zip (map k xs) xs = map (\<lambda>r. (k r, r)) xs"
  by (induction xs) simp_all

lemma filter_keyed:
  "filter (\<lambda>p. q (fst p)) (map (\<lambda>r. (k r, r)) xs) = map (\<lambda>r. (k r, r)) (filter (\<lambda>r. q (k r)) xs)"
  by (induction xs) simp_all

lemma sort_values_eq:
  assumes ok: "argsort_ok f" and c: "c \<in> set (columns df)" and num: "numbers_in df c"
  shows "\<exists>S. sort_values f df c = Inr (df\<lparr>rows := S\<rparr>) \<and> mset S = mset (rows df)
             \<and> sorted_wrt (key_le df c) S"
proof -
  define k where "k = (\<lambda>r. cell_at df r c)"
  define P where "P = filter (\<lambda>r. k r \<noteq> Null) (rows df)"
  define M where "M = filter (\<lambda>r. k r = Null) (rows df)"
  define perm where "perm = f (map k P)"
  define S where "S = map (\<lambda>i. P ! i) perm @ M"
  have keyed: "zip (map k (rows df)) (rows df) = map (\<lambda>r. (k r, r)) (rows df)"
    by (rule zip_keys)
  have present: "filter (\<lambda>p. fst p \<noteq> Null) (map (\<lambda>r. (k r, r)) (rows df)) = map (\<lambda>r. (k r, r)) P"
    unfolding P_def by (rule filter_keyed [of "\<lambda>x. x \<noteq> Null"])
  have missing: "filter (\<lambda>p. fst p = Null) (map (\<lambda>r. (k r, r)) (rows df)) = map (\<lambda>r. (k r, r)) M"
    unfolding M_def by (rule filter_keyed [of "\<lambda>x. x = Null"])
  have bound: "i < length P" if "i \<in> set perm" for i
    using argsort_bound [OF ok, of i "map k P"] that by (simp add: perm_def)
  have nums: "list_all is_num (map k P)"
    using num by (auto simp: numbers_in_def list_all_iff P_def k_def)
  have sel: "map (\<lambda>i. snd (map (\<lambda>r. (k r, r)) P ! i)) perm = map (\<lambda>i. P ! i) perm"
    by (rule map_cong [OF refl]) (simp add: bound)
  have sv: "sort_values f df c = Inr (df\<lparr>rows := S\<rparr>)"
    using c nums
    by (simp add: sort_values_def getitem_col_eq keyed [unfolded k_def] present [unfolded k_def]
        missing [unfolded k_def] sel [unfolded k_def perm_def] S_def perm_def k_def Let_def o_def)
  have "mset (map (\<lambda>i. P ! i) perm) = mset P"
    unfolding perm_def by (rule argsort_perm [OF ok]) simp
  then have ms: "mset S = mset (rows df)"
    by (simp add: S_def P_def M_def)
  have "sorted_wrt cell_le (map (\<lambda>i. map k P ! i) perm)"
    using ok unfolding argsort_ok_def perm_def by metis
  then have "sorted_wrt (\<lambda>i j. cell_le (map k P ! i) (map k P ! j)) perm"
    by (simp add: sorted_wrt_map)
  then have "sorted_wrt (\<lambda>i j. key_le df c (P ! i) (P ! j)) perm"
    by (rule sorted_wrt_mono_rel [rotated]) (simp add: bound key_le_def k_def)
  then have s1: "sorted_wrt (key_le df c) (map (\<lambda>i. P ! i) perm)"
    by (simp add: sorted_wrt_map)
  have mnull: "k r = Null" if "r \<in> set M" for r
    using that by (simp add: M_def)
  have "sorted_wrt (\<lambda>_ _. True) M" by simp
  then have s2: "sorted_wrt (key_le df c) M"
    by (rule sorted_wrt_mono_rel [rotated]) (use mnull in \<open>simp add: key_le_def k_def\<close>)
  have s3: "key_le df c a b" if "b \<in> set M" for a b
    using mnull [OF that] by (simp add: key_le_def k_def)
  have "sorted_wrt (key_le df c) S"
    unfolding S_def sorted_wrt_append using s1 s2 s3 by blast
  with sv ms show ?thesis by blast
qed


lemma numbers_in_rows_update:
  "numbers_in df c \<Longrightarrow> set rs \<subseteq> set (rows df) \<Longrightarrow> numbers_in (df\<lparr>rows := rs\<rparr>) c"
  by (auto simp: numbers_in_def list_all_iff)

lemma key_le_rows_update [simp]: "key_le (df\<lparr>rows := rs\<rparr>) c = key_le df c"
  by (intro ext) (simp add: key_le_def)

lemma usa_row_fun:
  "usa_row df = (\<lambda>r. cell_eq (cell_at df r ''country_a'') (Str ''United States of America'')
                     \<and> cell_at df r ''country_b'' \<in> Str ` set big_players)"
  by (rule ext) (auto simp: usa_row_def cell_eq_def)

lemma other_row_fun:
  "other_row df taken
   = (\<lambda>r. ((cell_at df r ''country_a'' \<in> Str ` set big_players
            \<and> \<not> cell_eq (cell_at df r ''country_a'') (Str ''United States of America''))
            \<and> cell_at df r ''country_b'' \<in> Str ` set big_players)
           \<and> fst r \<notin> set taken)"
  by (rule ext) (auto simp: other_row_def cell_eq_def)

lemma usa_terminated_eq:
  assumes ok: "argsort_ok (argsort L)"
      and cols: "''country_a'' \<in> set (columns tc)" "''country_b'' \<in> set (columns tc)"
        "''start_year'' \<in> set (columns tc)"
      and num: "numbers_in tc ''start_year''"
  shows "\<exists>S. usa_terminated L tc = Inr (tc\<lparr>rows := take 5 S\<rparr>)
           \<and> mset S = mset (filter (usa_row tc) (rows tc))
           \<and> sorted_wrt (key_le tc ''start_year'') S"
proof -
  let ?F = "tc\<lparr>rows := filter (usa_row tc) (rows tc)\<rparr>"
  have n: "numbers_in ?F ''start_year''"
    by (rule numbers_in_rows_update [OF num]) simp
  from sort_values_eq [OF ok _ n] cols(3)
  obtain S where S: "sort_values (argsort L) ?F ''start_year'' = Inr (?F\<lparr>rows := S\<rparr>)"
      "mset S = mset (rows ?F)" "sorted_wrt (key_le ?F ''start_year'') S"
    by auto
  have "usa_terminated L tc = Inr (tc\<lparr>rows := take 5 S\<rparr>)"
    using cols S(1)
    by (simp add: usa_terminated_def getitem_col_eq series_eq_map isin_map mask_and_map
        getitem_mask_map usa_row_fun [symmetric] head_def)
  with S(2,3) show ?thesis by auto
qed

lemma concat_single_key:
  "distinct ks \<Longrightarrow>
   concat (map (\<lambda>k. if k = k0 then A else []) ks) = (if k0 \<in> set ks then A else [])"
proof (induction ks)
  case Nil
  show ?case by simp
next
  case (Cons k ks)
  then have ih: "concat (map (\<lambda>k. if k = k0 then A else []) ks) = (if k0 \<in> set ks then A else [])"
    and nk: "k \<notin> set ks"
    by simp_all
  show ?case
  proof (cases "k = k0")
    case True
    with nk ih show ?thesis by simp
  next
    case False
    with ih show ?thesis by simp
  qed
qed

lemma filter_take_key:
  "filter (\<lambda>r. key r = k0) (take n (filter (\<lambda>r. key r = k) xs))
   = (if k = k0 then take n (filter (\<lambda>r. key r = k) xs) else [])"
proof -
  have mem: "key r = k" if "r \<in> set (take n (filter (\<lambda>r. key r = k) xs))" for r
    using in_set_takeD [OF that] by simp
  show ?thesis
  proof (cases "k = k0")
    case True
    have "filter (\<lambda>r. key r = k) (take n (filter (\<lambda>r. key r = k) xs))
          = take n (filter (\<lambda>r. key r = k) xs)"
      by (rule filter_True) (use mem in blast)
    with True show ?thesis by simp
  next
    case False
    have "filter (\<lambda>r. key r = k0) (take n (filter (\<lambda>r. key r = k) xs)) = []"
      by (rule filter_False) (use mem False in blast)
    with False show ?thesis by simp
  qed
qed

lemma snd_filter_keyed:
  "map snd (filter (\<lambda>p. fst p = k) (map (\<lambda>r. (key r, r)) xs)) = filter (\<lambda>r. key r = k) xs"
  by (induction xs) simp_all

lemma groupby_apply_head_eq:
  assumes c: "c \<in> set (columns df)"
  shows "\<exists>G. groupby_apply_head df c n = Inr (df\<lparr>rows := G\<rparr>)
           \<and> set G \<subseteq> set (rows df)
           \<and> (\<forall>r \<in> set G. cell_at df r c \<noteq> Null)
           \<and> (\<forall>k. k \<noteq> Null \<longrightarrow>
                 filter (\<lambda>r. cell_at df r c = k) G
                 = take n (filter (\<lambda>r. cell_at df r c = k) (rows df)))"
proof -
  define key where "key = (\<lambda>r. cell_at df r c)"
  define P where "P = filter (\<lambda>r. key r \<noteq> Null) (rows df)"
  define keys where "keys = sort_key cell_rank (remdups (map key P))"
  define groups where "groups = map (\<lambda>k. filter (\<lambda>r. key r = k) P) keys"
  define G where "G = (if list_all (\<lambda>g. length g \<le> n) groups then P
                       else concat (map (take n) groups))"
  have keyed: "filter (\<lambda>p. fst p \<noteq> Null) (zip (map key (rows df)) (rows df))
               = map (\<lambda>r. (key r, r)) P"
    unfolding zip_keys P_def by (rule filter_keyed [of "\<lambda>x. x \<noteq> Null"])
  have g1: "getitem_col df c = Inr \<lparr>dtype = dtype_at df c, cells = map key (rows df)\<rparr>"
    using c by (simp add: getitem_col_eq key_def)
  have e1: "map fst (map (\<lambda>r. (key r, r)) P) = map key P"
    by (simp add: o_def)
  have e2: "map snd (filter (\<lambda>p. fst p = k) (map (\<lambda>r. (key r, r)) P)) = filter (\<lambda>r. key r = k) P"
    for k by (rule snd_filter_keyed)
  have e3: "map snd (map (\<lambda>r. (key r, r)) P) = P"
    by (simp add: o_def)
  have gb: "groupby_apply_head df c n = Inr (df\<lparr>rows := G\<rparr>)"
  proof -
    have "groupby_apply_head df c n
          = (if list_all (\<lambda>g. length g \<le> n) groups then Inr (df\<lparr>rows := P\<rparr>)
             else Inr (df\<lparr>rows := concat (map (take n) groups)\<rparr>))"
      unfolding groupby_apply_head_def g1 bind_err_Inr
      by (simp only: series.select_convs Let_def keyed e1 e2 e3 groups_def keys_def)
    then show ?thesis
      by (cases "list_all (\<lambda>g. length g \<le> n) groups") (simp_all only: G_def if_True if_False)
  qed
  have dk: "distinct keys" and sk: "set keys = key ` set P"
    by (simp_all add: keys_def)
  have nn: "filter (\<lambda>r. key r = k) P = filter (\<lambda>r. key r = k) (rows df)" if "k \<noteq> Null" for k
  proof -
    have "filter (\<lambda>r. key r = k) P = filter (\<lambda>r. key r \<noteq> Null \<and> key r = k) (rows df)"
      unfolding P_def by (simp only: filter_filter)
    also have "\<dots> = filter (\<lambda>r. key r = k) (rows df)"
      by (rule filter_cong [OF refl]) (use that in blast)
    finally show ?thesis .
  qed
  have empty: "filter (\<lambda>r. key r = k) P = []" if "k \<notin> set keys" for k
    by (rule filter_False) (use that sk in blast)
  have per: "filter (\<lambda>r. key r = k) G = take n (filter (\<lambda>r. key r = k) P)" for k
  proof (cases "list_all (\<lambda>g. length g \<le> n) groups")
    case True
    have "length (filter (\<lambda>r. key r = k) P) \<le> n"
    proof (cases "k \<in> set keys")
      case True
      then have "filter (\<lambda>r. key r = k) P \<in> set groups"
        unfolding groups_def set_map by (rule imageI)
      with \<open>list_all (\<lambda>g. length g \<le> n) groups\<close> show ?thesis
        unfolding list_all_iff by blast
    next
      case False
      show ?thesis unfolding empty [OF False] by simp
    qed
    then have "take n (filter (\<lambda>r. key r = k) P) = filter (\<lambda>r. key r = k) P"
      by (rule take_all)
    moreover have "G = P" using True by (simp only: G_def if_True)
    ultimately show ?thesis by (simp only:)
  next
    case False
    have "G = concat (map (take n) groups)" using False by (simp only: G_def if_False)
    then have "filter (\<lambda>r. key r = k) G
          = concat (map (\<lambda>k'. filter (\<lambda>r. key r = k) (take n (filter (\<lambda>r. key r = k') P))) keys)"
      by (simp only: groups_def filter_concat map_map o_def)
    also have "\<dots> = concat (map (\<lambda>k'. if k' = k then take n (filter (\<lambda>r. key r = k) P) else []) keys)"
    proof (intro arg_cong [where f = concat] map_cong refl)
      fix k'
      show "filter (\<lambda>r. key r = k) (take n (filter (\<lambda>r. key r = k') P))
            = (if k' = k then take n (filter (\<lambda>r. key r = k) P) else [])"
        unfolding filter_take_key by (cases "k' = k") (simp_all only: if_True if_False)
    qed
    also have "\<dots> = (if k \<in> set keys then take n (filter (\<lambda>r. key r = k) P) else [])"
      by (rule concat_single_key [OF dk])
    also have "\<dots> = take n (filter (\<lambda>r. key r = k) P)"
    proof (cases "k \<in> set keys")
      case True
      then show ?thesis by (simp only: if_True)
    next
      case False
      then show ?thesis by (simp only: if_False empty [OF False] take_Nil)
    qed
    finally show ?thesis .
  qed
  have sub: "set G \<subseteq> set P"
  proof
    fix r assume "r \<in> set G"
    then have "r \<in> set (filter (\<lambda>x. key x = key r) G)" by simp
    then have "r \<in> set (take n (filter (\<lambda>x. key x = key r) P))" by (simp only: per)
    then have "r \<in> set (filter (\<lambda>x. key x = key r) P)" by (rule in_set_takeD)
    then show "r \<in> set P" by simp
  qed
  have setP: "set P \<subseteq> set (rows df)" and nnP: "\<forall>r \<in> set P. key r \<noteq> Null"
    by (simp_all add: P_def)
  have c1: "set G \<subseteq> set (rows df)" using sub setP by blast
  have c2: "\<forall>r \<in> set G. cell_at df r c \<noteq> Null" using sub nnP unfolding key_def by blast
  have c3: "\<forall>k. k \<noteq> Null \<longrightarrow> filter (\<lambda>r. cell_at df r c = k) G
                   = take n (filter (\<lambda>r. cell_at df r c = k) (rows df))"
    using per nn unfolding key_def by simp
  show ?thesis
    by (rule exI [of _ G]) (intro conjI gb c1 c2 c3)
qed

lemma reset_index_rows:
  "reset_index (df\<lparr>rows := G\<rparr>) = df\<lparr>rows := zip [0..<length G] (map snd G)\<rparr>"
  by (simp add: reset_index_def)

lemma other_bigpower_conflicts_eq:
  assumes cols: "''country_a'' \<in> set (columns tc)" "''country_b'' \<in> set (columns tc)"
  shows "\<exists>G. other_bigpower_conflicts tc usa
               = Inr (tc\<lparr>rows := zip [0..<length G] (map snd G)\<rparr>)
           \<and> set G \<subseteq> set (filter (other_row tc (index usa)) (rows tc))
           \<and> (\<forall>k. filter (\<lambda>r. cell_at tc r ''country_a'' = k) G
                    = take 2 (filter (\<lambda>r. cell_at tc r ''country_a'' = k)
                               (filter (other_row tc (index usa)) (rows tc))))"
proof -
  let ?F = "tc\<lparr>rows := filter (other_row tc (index usa)) (rows tc)\<rparr>"
  have ca: "''country_a'' \<in> set (columns ?F)" using cols(1) by simp
  from groupby_apply_head_eq [OF ca, of 2]
  obtain G where G: "groupby_apply_head ?F ''country_a'' 2 = Inr (?F\<lparr>rows := G\<rparr>)"
      "set G \<subseteq> set (rows ?F)"
      "\<forall>r \<in> set G. cell_at ?F r ''country_a'' \<noteq> Null"
      "\<forall>k. k \<noteq> Null \<longrightarrow> filter (\<lambda>r. cell_at ?F r ''country_a'' = k) G
             = take 2 (filter (\<lambda>r. cell_at ?F r ''country_a'' = k) (rows ?F))"
    by blast
  have mask: "getitem_mask tc
        (mask_and (mask_and (mask_and
            (map (\<lambda>r. cell_at tc r ''country_a'' \<in> Str ` set big_players) (rows tc))
            (map (\<lambda>r. \<not> cell_eq (cell_at tc r ''country_a'') (Str ''United States of America'')) (rows tc)))
            (map (\<lambda>r. cell_at tc r ''country_b'' \<in> Str ` set big_players) (rows tc)))
            (mask_not (index_isin tc (index usa)))) = ?F"
    by (simp only: mask_and_map mask_not_map index_isin_def getitem_mask_map other_row_fun)
  have eq: "other_bigpower_conflicts tc usa = Inr (tc\<lparr>rows := zip [0..<length G] (map snd G)\<rparr>)"
    unfolding other_bigpower_conflicts_def
    by (simp only: getitem_col_eq [OF cols(1)] getitem_col_eq [OF cols(2)] bind_err_Inr
        isin_map series_ne_map mask G(1) reset_index_rows) simp
  have sub: "set G \<subseteq> set (filter (other_row tc (index usa)) (rows tc))"
    using G(2) by simp
  have per: "filter (\<lambda>r. cell_at tc r ''country_a'' = k) G
             = take 2 (filter (\<lambda>r. cell_at tc r ''country_a'' = k)
                        (filter (other_row tc (index usa)) (rows tc)))" for k
  proof (cases "k = Null")
    case False
    with G(4) show ?thesis by simp
  next
    case True
    have "filter (\<lambda>r. cell_at tc r ''country_a'' = k) G = []"
      by (rule filter_False) (use G(3) True in simp)
    moreover have "filter (\<lambda>r. cell_at tc r ''country_a'' = k)
                     (filter (other_row tc (index usa)) (rows tc)) = []"
      by (rule filter_False) (use True in \<open>auto simp: other_row_def\<close>)
    ultimately show ?thesis by simp
  qed
  show ?thesis
    by (rule exI [of _ G]) (intro conjI allI eq sub per)
qed


lemma remaining_needed_eq: "remaining_needed usa = 10 - len usa"
  by (simp add: remaining_needed_def)


lemma cohort_eq:
  assumes ok: "argsort_ok (argsort L)"
      and cols: "''country_a'' \<in> set (columns tc)" "''country_b'' \<in> set (columns tc)"
        "''start_year'' \<in> set (columns tc)"
      and num: "numbers_in tc ''start_year''"
  shows "\<exists>U G. cohort L tc
                = Inr (tc\<lparr>rows := take 5 U\<rparr>,
                       tc\<lparr>rows := take (10 - length (take 5 U)) (zip [0..<length G] (map snd G))\<rparr>,
                       final_set (tc\<lparr>rows := take 5 U\<rparr>)
                         (tc\<lparr>rows := take (10 - length (take 5 U))
                                          (zip [0..<length G] (map snd G))\<rparr>))
           \<and> mset U = mset (filter (usa_row tc) (rows tc))
           \<and> sorted_wrt (key_le tc ''start_year'') U
           \<and> set G \<subseteq> set (filter (other_row tc (map fst (take 5 U))) (rows tc))
           \<and> (\<forall>k. filter (\<lambda>r. cell_at tc r ''country_a'' = k) G
                    = take 2 (filter (\<lambda>r. cell_at tc r ''country_a'' = k)
                               (filter (other_row tc (map fst (take 5 U))) (rows tc))))"
proof -
  from usa_terminated_eq [OF ok cols num]
  obtain U where U: "usa_terminated L tc = Inr (tc\<lparr>rows := take 5 U\<rparr>)"
      "mset U = mset (filter (usa_row tc) (rows tc))" "sorted_wrt (key_le tc ''start_year'') U"
    by blast
  let ?usa = "tc\<lparr>rows := take 5 U\<rparr>"
  have ix: "index ?usa = map fst (take 5 U)" by (simp add: index_def)
  from other_bigpower_conflicts_eq [OF cols(1,2), of ?usa]
  obtain G where G: "other_bigpower_conflicts tc ?usa
                       = Inr (tc\<lparr>rows := zip [0..<length G] (map snd G)\<rparr>)"
      "set G \<subseteq> set (filter (other_row tc (map fst (take 5 U))) (rows tc))"
      "\<forall>k. filter (\<lambda>r. cell_at tc r ''country_a'' = k) G
            = take 2 (filter (\<lambda>r. cell_at tc r ''country_a'' = k)
                       (filter (other_row tc (map fst (take 5 U))) (rows tc)))"
    unfolding ix by blast
  have add: "additional (tc\<lparr>rows := zip [0..<length G] (map snd G)\<rparr>) ?usa
             = tc\<lparr>rows := take (10 - length (take 5 U)) (zip [0..<length G] (map snd G))\<rparr>"
    by (simp add: additional_def head_def remaining_needed_eq len_def)
  have "cohort L tc
        = Inr (?usa, tc\<lparr>rows := take (10 - length (take 5 U)) (zip [0..<length G] (map snd G))\<rparr>,
               final_set ?usa (tc\<lparr>rows := take (10 - length (take 5 U))
                                          (zip [0..<length G] (map snd G))\<rparr>))"
    unfolding cohort_def U(1) bind_err_Inr G(1) add ..
  then show ?thesis using U(2,3) G(2,3) by blast
qed

lemma map_fst_map2:
  "length ys = length xs \<Longrightarrow> map fst (map2 (\<lambda>r v. (fst r, g r v)) xs ys) = map fst xs"
  by (induction ys xs rule: list_induct2) simp_all

lemma setitem_col_index:
  assumes "length (cells s) = len df"
  shows "index (setitem_col df c s) = index df"
proof (cases "c \<in> set (columns df)")
  case True
  then have "rows (setitem_col df c s)
             = map2 (\<lambda>r v. (fst r, map2 (\<lambda>k x. if k = c then v else x) (columns df) (snd r)))
                 (rows df) (cells s)"
    by (simp add: setitem_col_def)
  then show ?thesis
    unfolding index_def using assms by (simp only: len_def map_fst_map2)
next
  case False
  then have "rows (setitem_col df c s) = map2 (\<lambda>r v. (fst r, snd r @ [v])) (rows df) (cells s)"
    by (simp add: setitem_col_def)
  then show ?thesis
    unfolding index_def using assms by (simp only: len_def map_fst_map2)
qed

lemma setitem_col_len: "length (cells s) = len df \<Longrightarrow> len (setitem_col df c s) = len df"
  using setitem_col_index [of s df c] by (simp add: index_def len_def) (metis length_map)

lemma setitem_col_columns:
  "set (columns df) \<subseteq> set (columns (setitem_col df c s))" "c \<in> set (columns (setitem_col df c s))"
  by (auto simp: setitem_col_def)

lemma getitem_col_Inr:
  "getitem_col df c = Inr s \<Longrightarrow> c \<in> set (columns df) \<and> length (cells s) = len df"
  by (auto simp: getitem_col_def len_def split: if_splits)

lemma loc_col_length: "loc_col df ix c = Inr s \<Longrightarrow> length (cells s) = length ix"
  by (auto simp: loc_col_def bind_err_Inr_iff split: if_splits dest: sequence_length)

lemma dt_year_length: "dt_year yr s = Inr t \<Longrightarrow> length (cells t) = length (cells s)"
  by (auto simp: dt_year_def bind_err_Inr_iff dest: sequence_length)

lemma series_add_scalar_length:
  "series_add_scalar a v = Inr c \<Longrightarrow> length (cells c) = length (cells a)"
  by (auto simp: series_add_scalar_def bind_err_Inr_iff split: if_splits dest: sequence_length)

lemma series_add_length:
  "series_add a b = Inr c \<Longrightarrow> length (cells c) = min (length (cells a)) (length (cells b))"
  by (auto simp: series_add_def bind_err_Inr_iff dest: sequence_length)

lemma cohort_label_Inr:
  assumes "cohort_label L tc = Inr lab"
  shows "''country_a'' \<in> set (columns tc) \<and> ''country_b'' \<in> set (columns tc)
         \<and> length (cells lab) = len tc"
proof -
  from assms obtain a s1 b s2 s3 y s4 where
    a: "getitem_col tc ''country_a'' = Inr a" and s1: "series_add_scalar a (Str dash) = Inr s1"
    and b: "getitem_col tc ''country_b'' = Inr b" and s2: "series_add s1 b = Inr s2"
    and s3: "series_add_scalar s2 (Str '' ('') = Inr s3"
    and y: "getitem_col tc ''start_year'' = Inr y"
    and s4: "series_add s3 (astype_str (py_str L) y) = Inr s4"
    and lab: "series_add_scalar s4 (Str '')'') = Inr lab"
    unfolding cohort_label_def bind_err_Inr_iff by blast
  have "length (cells (astype_str (py_str L) y)) = len tc"
    using getitem_col_Inr [OF y] by (simp add: astype_str_def)
  then have "length (cells lab) = len tc"
    using getitem_col_Inr [OF a] getitem_col_Inr [OF b] series_add_scalar_length [OF s1]
      series_add_length [OF s2] series_add_scalar_length [OF s3] series_add_length [OF s4]
      series_add_scalar_length [OF lab]
    by simp
  with getitem_col_Inr [OF a] getitem_col_Inr [OF b] show ?thesis by simp
qed

lemma terminated_selection_Inr:
  assumes "terminated_selection dm = Inr tc0"
  shows "tc0 = dm\<lparr>rows := filter (\<lambda>r. cell_at dm r ''terminated'' = Num 1) (rows dm)\<rparr>"
proof -
  from assms obtain t where t: "getitem_col dm ''terminated'' = Inr t"
    and tc0: "tc0 = getitem_mask dm (series_eq t (Num 1))"
    unfolding terminated_selection_def bind_err_Inr_iff by auto
  from getitem_col_Inr [OF t] have c: "''terminated'' \<in> set (columns dm)" by simp
  have e: "(\<lambda>r. cell_eq (cell_at dm r ''terminated'') (Num 1)) = (\<lambda>r. cell_at dm r ''terminated'' = Num 1)"
    by (rule ext) (auto simp: cell_eq_def)
  show ?thesis
    using t unfolding tc0 getitem_col_eq [OF c]
    by (auto simp: series_eq_map getitem_mask_map e)
qed

lemma terminated_conflicts_Inr:
  assumes "terminated_conflicts L data dm = Inr tc"
  shows "index tc = map fst (filter (\<lambda>r. cell_at dm r ''terminated'' = Num 1) (rows dm))"
    and "''country_a'' \<in> set (columns tc)" and "''country_b'' \<in> set (columns tc)"
    and "''start_year'' \<in> set (columns tc)"
proof -
  from assms obtain tc0 ys lab where
    tc0: "terminated_selection dm = Inr tc0" and ys: "start_year_of L data tc0 = Inr ys"
    and lab: "cohort_label L (setitem_col tc0 ''start_year'' ys) = Inr lab"
    and tc: "tc = setitem_col (setitem_col tc0 ''start_year'' ys) ''label'' lab"
    unfolding terminated_conflicts_def bind_err_Inr_iff Let_def by auto
  let ?tc1 = "setitem_col tc0 ''start_year'' ys"
  from ys obtain d where "loc_col data (index tc0) ''start_date'' = Inr d"
      "dt_year (year_of_date L) d = Inr ys"
    unfolding start_year_of_def bind_err_Inr_iff by blast
  then have ly: "length (cells ys) = len tc0"
    using loc_col_length dt_year_length by (fastforce simp: index_def len_def)
  note cl = cohort_label_Inr [OF lab]
  have "index tc = index ?tc1"
    unfolding tc by (rule setitem_col_index) (use cl in simp)
  also have "\<dots> = index tc0" by (rule setitem_col_index [OF ly])
  finally show "index tc = map fst (filter (\<lambda>r. cell_at dm r ''terminated'' = Num 1) (rows dm))"
    unfolding terminated_selection_Inr [OF tc0] by (simp add: index_def)
  show "''country_a'' \<in> set (columns tc)" "''country_b'' \<in> set (columns tc)"
    "''start_year'' \<in> set (columns tc)"
    using cl setitem_col_columns(1) [where df = ?tc1 and c = "''label''" and s = lab]
      setitem_col_columns(2) [where df = tc0 and c = "''start_year''" and s = ys]
    unfolding tc by blast+
qed

lemma snd_take_zip: "map snd (take m (zip [0..<length G] (map snd G))) = take m (map snd G)"
  by (simp add: take_map [symmetric])

lemma length_filter_take: "length (filter P (take m xs)) \<le> length (filter P xs)"
proof -
  have "length (filter P xs) = length (filter P (take m xs @ drop m xs))" by simp
  also have "\<dots> = length (filter P (take m xs)) + length (filter P (drop m xs))"
    by (simp only: filter_append length_append)
  finally show ?thesis by simp
qed

lemma length_filter_snd: "length (filter (\<lambda>r. Q (snd r)) xs) = length (filter Q (map snd xs))"
  by (induction xs) simp_all

lemma cell_at_snd: "snd r = snd r' \<Longrightarrow> cell_at df r c = cell_at df r' c"
  by (simp add: cell_at_def)

section \<open>The example, run through the script\<close>

lemma example_dm_eq: "data_model example_data = Inr example_dm"
  by code_simp

lemma example_tc_eq: "terminated_conflicts example_library example_data example_dm = Inr example_tc"
  by code_simp

lemma example_tc_years: "numbers_in example_tc ''start_year''"
  by code_simp


lemma example_library_ok: "argsort_ok (argsort example_library)"
  by (simp add: example_library_def example_argsort_ok)

lemma example_backfill_unsorted:
  "bind_err (cohort example_library example_tc) (\<lambda>(usa, add, fs).
     Inr (sorted_wrt (key_le example_tc ''start_year'') (rows add))) = Inr False"
  by code_simp

section \<open>The cohort selection\<close>



section \<open>The backfill rows\<close>

text \<open>
  Claim C10. Under the conditions of the cohort selection, let \<open>F\<close> be \<open>tc\<close>
  restricted to the rows of the other big powers (initiator on the list and not the United
  States, target on the list, index label not in \<open>usa\<close>), in the order of \<open>tc\<close>. The
  backfill \<open>add\<close> holds the cells of the first \<open>10 - len usa\<close> rows of a list \<open>G\<close>
  whose rows of any one initiator are the first two rows of that initiator in \<open>F\<close>, in
  the order of \<open>F\<close>. Every row of \<open>add\<close> has its initiator and its target on the list
  of big powers. The rows of \<open>usa\<close> are in ascending order of start year; those of
  \<open>add\<close> need not be: in the example they start in 2020, 2017 and 2017.
\<close>

theorem backfill_rows:
  assumes ok: "argsort_ok (argsort L)"
      and tcd: "terminated_conflicts L data dm = Inr tc"
      and num: "numbers_in tc ''start_year''"
  shows "\<exists>usa add fs G.
           cohort L tc = Inr (usa, add, fs)
         \<and> map snd (rows add) = take (10 - len usa) (map snd G)
         \<and> (\<forall>k. filter (\<lambda>r. cell_at tc r ''country_a'' = k) G
                  = take 2 (filter (\<lambda>r. cell_at tc r ''country_a'' = k)
                             (filter (other_row tc (index usa)) (rows tc))))
         \<and> (\<forall>r \<in> set (rows add). cell_at tc r ''country_a'' \<in> Str ` set big_players
                                   \<and> cell_at tc r ''country_b'' \<in> Str ` set big_players)
         \<and> sorted_wrt (key_le tc ''start_year'') (rows usa)
         \<and> (\<exists>usa' add' fs'. cohort example_library example_tc = Inr (usa', add', fs')
               \<and> \<not> sorted_wrt (key_le example_tc ''start_year'') (rows add'))"
proof -
  note t = terminated_conflicts_Inr [OF tcd]
  from cohort_eq [OF ok t(2,3,4) num]
  obtain U G where
    c: "cohort L tc
          = Inr (tc\<lparr>rows := take 5 U\<rparr>,
                 tc\<lparr>rows := take (10 - length (take 5 U)) (zip [0..<length G] (map snd G))\<rparr>,
                 final_set (tc\<lparr>rows := take 5 U\<rparr>)
                   (tc\<lparr>rows := take (10 - length (take 5 U))
                                    (zip [0..<length G] (map snd G))\<rparr>))"
    and U: "sorted_wrt (key_le tc ''start_year'') U"
    and G: "set G \<subseteq> set (filter (other_row tc (map fst (take 5 U))) (rows tc))"
      "\<forall>k. filter (\<lambda>r. cell_at tc r ''country_a'' = k) G
           = take 2 (filter (\<lambda>r. cell_at tc r ''country_a'' = k)
                      (filter (other_row tc (map fst (take 5 U))) (rows tc)))"
    by blast
  define usa where "usa = tc\<lparr>rows := take 5 U\<rparr>"
  define add where "add = tc\<lparr>rows := take (10 - length (take 5 U)) (zip [0..<length G] (map snd G))\<rparr>"
  define fs where "fs = final_set usa add"
  have c': "cohort L tc = Inr (usa, add, fs)"
    unfolding c usa_def add_def fs_def ..
  have lu: "len usa = length (take 5 U)" by (simp add: usa_def len_def)
  have iu: "index usa = map fst (take 5 U)" by (simp add: usa_def index_def)
  have ra: "map snd (rows add) = take (10 - len usa) (map snd G)"
    unfolding add_def lu using snd_take_zip [of "10 - length (take 5 U)" G] by simp
  have big: "cell_at tc r ''country_a'' \<in> Str ` set big_players
             \<and> cell_at tc r ''country_b'' \<in> Str ` set big_players" if "r \<in> set (rows add)" for r
  proof -
    from that have "snd r \<in> set (map snd (rows add))" by simp
    then have "snd r \<in> set (map snd G)" unfolding ra by (rule in_set_takeD)
    then obtain g where g: "g \<in> set G" "snd g = snd r" by auto
    from g(1) G(1) have "other_row tc (map fst (take 5 U)) g" by auto
    then have "cell_at tc g ''country_a'' \<in> Str ` set big_players
               \<and> cell_at tc g ''country_b'' \<in> Str ` set big_players"
      by (simp add: other_row_def)
    then show ?thesis
      unfolding cell_at_snd [OF g(2), of tc] .
  qed
  have su: "sorted_wrt (key_le tc ''start_year'') (rows usa)"
    unfolding usa_def using U by simp
  have ex: "\<exists>usa' add' fs'. cohort example_library example_tc = Inr (usa', add', fs')
               \<and> \<not> sorted_wrt (key_le example_tc ''start_year'') (rows add')"
  proof (cases "cohort example_library example_tc")
    case (Inl e)
    with example_backfill_unsorted show ?thesis by simp
  next
    case (Inr x)
    obtain u a f where x: "x = (u, a, f)" by (cases x) auto
    from example_backfill_unsorted
    have "\<not> sorted_wrt (key_le example_tc ''start_year'') (rows a)"
      unfolding Inr x by simp
    then have "Inr (u, a, f) = (Inr (u, a, f) :: py_error + frame \<times> frame \<times> frame)
               \<and> \<not> sorted_wrt (key_le example_tc ''start_year'') (rows a)"
      by simp
    then show ?thesis
      unfolding Inr x by (intro exI)
  qed
  show ?thesis
    apply (rule exI [of _ usa], rule exI [of _ add], rule exI [of _ fs], rule exI [of _ G])
    apply (intro conjI)
    apply (rule c')
    apply (rule ra)
    apply (unfold iu, rule G(2))
    apply (rule ballI, rule big, assumption)
    apply (rule su)
    apply (rule ex)
    done
qed

theorem backfill_rows_witness:
  "argsort_ok (argsort example_library)
   \<and> terminated_conflicts example_library example_data example_dm = Inr example_tc
   \<and> numbers_in example_tc ''start_year''
   \<and> (\<exists>usa add fs G.
           cohort example_library example_tc = Inr (usa, add, fs)
         \<and> map snd (rows add) = take (10 - len usa) (map snd G)
         \<and> (\<forall>k. filter (\<lambda>r. cell_at example_tc r ''country_a'' = k) G
                  = take 2 (filter (\<lambda>r. cell_at example_tc r ''country_a'' = k)
                             (filter (other_row example_tc (index usa)) (rows example_tc))))
         \<and> (\<forall>r \<in> set (rows add). cell_at example_tc r ''country_a'' \<in> Str ` set big_players
                                   \<and> cell_at example_tc r ''country_b'' \<in> Str ` set big_players)
         \<and> sorted_wrt (key_le example_tc ''start_year'') (rows usa)
         \<and> (\<exists>usa' add' fs'. cohort example_library example_tc = Inr (usa', add', fs')
               \<and> \<not> sorted_wrt (key_le example_tc ''start_year'') (rows add')))
   \<and> bind_err (cohort example_library example_tc) (\<lambda>(usa, add, fs).
         Inr (sorted_wrt (key_le example_tc ''start_year'') (rows add))) = Inr False"
  by (intro conjI example_library_ok example_tc_eq example_tc_years example_backfill_unsorted
      backfill_rows [OF example_library_ok example_tc_eq example_tc_years])

end
